theory Spec2Isabelle
  imports Complex_Main "HOL-Library.AList" "HOL-Library.Sublist"
begin

section \<open>Messages and catalogs\<close>

text \<open>
  The dataclasses \<^verbatim>\<open>Message\<close> and \<^verbatim>\<open>Locale\<close> are records. The fields of a message
  carry the prefix \<^verbatim>\<open>msg_\<close>, since \<^verbatim>\<open>value\<close> and \<^verbatim>\<open>context\<close> are reserved words.
  A Python \<^verbatim>\<open>dict\<close> whose iteration order matters is an association list with distinct
  keys: \<^const>\<open>AList.update\<close> replaces the value of a present key in place and appends a
  new key at the end, as assignment to a dict entry does.
\<close>

record Message =
  msg_key :: string
  msg_value :: string
  msg_plural_forms :: "(string \<times> string) list"
  msg_context :: string
  msg_description :: string

record Locale =
  code :: string
  language :: string
  region :: "string option"
  name :: string
  direction :: string
  date_format :: string
  time_format :: string
  datetime_format :: string
  decimal_separator :: string
  thousands_separator :: string
  currency_symbol :: string
  currency_format :: string

definition Locale_init :: "string \<Rightarrow> string \<Rightarrow> string \<Rightarrow> Locale" where
  \<comment> \<open>\<^verbatim>\<open>Locale(code=c, language=l, name=n)\<close> with the defaults of the dataclass.\<close>
  "Locale_init c l n =
     \<lparr>code = c, language = l, region = None, name = n, direction = ''ltr'',
      date_format = ''%Y-%m-%d'', time_format = ''%H:%M:%S'',
      datetime_format = ''%Y-%m-%d %H:%M:%S'', decimal_separator = ''.'',
      thousands_separator = '','', currency_symbol = ''$'',
      currency_format = ''{symbol}{amount}''\<rparr>"

record MessageCatalog =
  cat_locale :: Locale
  messages :: "(string \<times> Message) list"

definition MessageCatalog_init :: "Locale \<Rightarrow> MessageCatalog" where
  "MessageCatalog_init l = \<lparr>cat_locale = l, messages = []\<rparr>"

definition full_key :: "string \<Rightarrow> string \<Rightarrow> string" where
  \<comment> \<open>the context, a colon and the key when the context is not empty, else the key\<close>
  "full_key ctx k = (if ctx \<noteq> [] then ctx @ '':'' @ k else k)"

definition add :: "MessageCatalog \<Rightarrow> Message \<Rightarrow> MessageCatalog" where
  "add c m = c\<lparr>messages := AList.update (full_key (msg_context m) (msg_key m)) m (messages c)\<rparr>"

definition get :: "MessageCatalog \<Rightarrow> string \<Rightarrow> string \<Rightarrow> Message option" where
  \<comment> \<open>A \<^verbatim>\<open>Message\<close> object is always truthy, so \<^verbatim>\<open>a or b\<close> is \<^verbatim>\<open>b\<close> exactly when \<^verbatim>\<open>a\<close> is \<^verbatim>\<open>None\<close>.\<close>
  "get c k ctx =
     (case map_of (messages c) (full_key ctx k) of
        Some m \<Rightarrow> Some m
      | None \<Rightarrow> map_of (messages c) k)"

fun add_messages :: "MessageCatalog \<Rightarrow> (string \<times> string) list \<Rightarrow> MessageCatalog" where
  "add_messages c [] = c"
| "add_messages c ((k, v) # rest) =
     add_messages
       (add c \<lparr>msg_key = k, msg_value = v, msg_plural_forms = [], msg_context = [],
               msg_description = []\<rparr>) rest"

text \<open>
  \<^verbatim>\<open>load_json\<close> reads a file and interprets the parsed mapping. The file is outside the
  model; \<open>load_data\<close> is the loop over the parsed mapping. A parsed value is a string, an
  object or something else (a number, a list, \<^verbatim>\<open>null\<close>). Of an object the loop reads the
  fields \<^verbatim>\<open>value\<close>, \<^verbatim>\<open>one\<close>, \<^verbatim>\<open>plural\<close>, \<^verbatim>\<open>context\<close> and \<^verbatim>\<open>description\<close>, each of which
  may be absent; the record \<open>json_object\<close> holds them with the types the dataclass
  declares for the fields they fill.
\<close>

record json_object =
  f_value :: "string option"
  f_one :: "string option"
  f_plural :: "(string \<times> string) list option"
  f_context :: "string option"
  f_description :: "string option"

datatype json_value = JString string | JObject json_object | JOther

definition or_default :: "'a option \<Rightarrow> 'a \<Rightarrow> 'a" where
  \<comment> \<open>\<^verbatim>\<open>d.get(k, default)\<close>, for the field already looked up\<close>
  "or_default x d = (case x of Some v \<Rightarrow> v | None \<Rightarrow> d)"

fun load_data :: "MessageCatalog \<Rightarrow> (string \<times> json_value) list \<Rightarrow> MessageCatalog \<times> nat" where
  "load_data c [] = (c, 0)"
| "load_data c ((k, v) # rest) =
     (let c' =
        (case v of
           JString s \<Rightarrow>
             add c \<lparr>msg_key = k, msg_value = s, msg_plural_forms = [], msg_context = [],
                    msg_description = []\<rparr>
         | JObject ob \<Rightarrow>
             add c \<lparr>msg_key = k,
                    msg_value = or_default (f_value ob) (or_default (f_one ob) []),
                    msg_plural_forms = or_default (f_plural ob) [],
                    msg_context = or_default (f_context ob) [],
                    msg_description = or_default (f_description ob) []\<rparr>
         | JOther \<Rightarrow> c);
          r = load_data c' rest
      in (fst r, snd r + 1))"

definition to_dict :: "MessageCatalog \<Rightarrow> (string \<times> json_value) list" where
  "to_dict c =
     map (\<lambda>(k, m).
            if msg_plural_forms m \<noteq> [] then
              (k, JObject \<lparr>f_value = Some (msg_value m), f_one = None,
                           f_plural = Some (msg_plural_forms m), f_context = None,
                           f_description = None\<rparr>)
            else (k, JString (msg_value m)))
         (messages c)"

section \<open>Plural rules\<close>

text \<open>
  The source is \<^verbatim>\<open>src/roadlocale/locale.py\<close>. The enumeration \<^verbatim>\<open>PluralRule\<close> is a
  datatype with the six categories in the order of the source.
\<close>

datatype PluralRule = ZERO | ONE | TWO | FEW | MANY | OTHER

fun rule_value :: "PluralRule \<Rightarrow> string" where
  \<comment> \<open>the string value of a member of the enumeration\<close>
  "rule_value ZERO = ''zero''"
| "rule_value ONE = ''one''"
| "rule_value TWO = ''two''"
| "rule_value FEW = ''few''"
| "rule_value MANY = ''many''"
| "rule_value OTHER = ''other''"

text \<open>
  A Python number is an unbounded \<^verbatim>\<open>int\<close> or a \<^verbatim>\<open>float\<close>. A finite float is modelled by
  the rational number it denotes; the operations the source applies to counts
  (\<^verbatim>\<open>abs\<close>, comparison with small integers, \<^verbatim>\<open>%\<close> by 10 and 100 on a non-negative
  operand) are exact on floats, so they are the same operations on that rational.
  The infinities, NaN and the negative zero are not of this type; the formatter has
  them as values of their own.
\<close>

datatype number = PyInt int | PyFloat rat

fun num_val :: "number \<Rightarrow> rat" where
  "num_val (PyInt i) = of_int i"
| "num_val (PyFloat r) = r"

definition py_mod :: "rat \<Rightarrow> int \<Rightarrow> rat" where
  \<comment> \<open>Python's \<^verbatim>\<open>a % m\<close> for a positive integer \<^verbatim>\<open>m\<close>: the result has the sign of \<^verbatim>\<open>m\<close>.\<close>
  "py_mod a m = a - of_int m * of_int \<lfloor>a / of_int m\<rfloor>"

definition get_rule :: "string \<Rightarrow> number \<Rightarrow> PluralRule" where
  "get_rule lang n0 =
     (let n = \<bar>num_val n0\<bar> in
      if lang \<in> set [''en'', ''de'', ''es'', ''it'', ''pt'', ''nl''] then
        (if n = 1 then ONE else OTHER)
      else if lang = ''fr'' then
        (if n < 2 then ONE else OTHER)
      else if lang \<in> set [''ru'', ''pl'', ''uk''] then
        (let n_mod_10 = py_mod n 10; n_mod_100 = py_mod n 100 in
         if n_mod_10 = 1 \<and> n_mod_100 \<noteq> 11 then ONE
         else if n_mod_10 \<in> set [2, 3, 4] \<and> n_mod_100 \<notin> set [12, 13, 14] then FEW
         else MANY)
      else if lang = ''ar'' then
        (if n = 0 then ZERO
         else if n = 1 then ONE
         else if n = 2 then TWO
         else if 3 \<le> py_mod n 100 \<and> py_mod n 100 \<le> 10 then FEW
         else if 11 \<le> py_mod n 100 \<and> py_mod n 100 \<le> 99 then MANY
         else OTHER)
      else (if n = 1 then ONE else OTHER))"

text \<open>
  The decision table of the specification, written from its words: the rows are keyed by
  the language tag and read the count, which the caller passes as an absolute value.
\<close>

definition categorize :: "string \<Rightarrow> rat \<Rightarrow> PluralRule" where
  "categorize tag c =
     (if tag \<in> {''en'', ''de'', ''es'', ''it'', ''pt'', ''nl''} then
        (if c = 1 then ONE else OTHER)
      else if tag = ''fr'' then
        (if c < 2 then ONE else OTHER)
      else if tag \<in> {''ru'', ''pl'', ''uk''} then
        (if py_mod c 10 = 1 \<and> py_mod c 100 \<noteq> 11 then ONE
         else if py_mod c 10 \<in> {2, 3, 4} \<and> py_mod c 100 \<notin> {12, 13, 14} then FEW
         else MANY)
      else if tag = ''ar'' then
        (if c = 0 then ZERO
         else if c = 1 then ONE
         else if c = 2 then TWO
         else if 3 \<le> py_mod c 100 \<and> py_mod c 100 \<le> 10 then FEW
         else if 11 \<le> py_mod c 100 \<and> py_mod c 100 \<le> 99 then MANY
         else OTHER)
      else (if c = 1 then ONE else OTHER))"


section \<open>Values and built-in operations\<close>

text \<open>
  An exception is a value of \<open>error\<close>; a function that may raise returns \<open>error + 'a\<close>.
  \<open>NotModelled\<close> is not an exception: it marks an input on which the model of a built-in
  does not say what Python does.
\<close>

datatype error = ValueError | TypeError | AttributeError | KeyError | IndexError | NotModelled

record pydate =
  year :: int
  month :: int
  day :: int

record pydatetime =
  dt_date :: pydate
  hour :: int
  minute :: int
  second :: int
  microsecond :: int

definition at_midnight :: "pydate \<Rightarrow> pydatetime" where
  "at_midnight d = \<lparr>dt_date = d, hour = 0, minute = 0, second = 0, microsecond = 0\<rparr>"

text \<open>
  The values a caller passes for placeholders: numbers, strings, dates and datetimes.
  The floats that no rational number stands for are the values \<open>VSpecial\<close>: the two
  infinities, NaN and the negative zero.
\<close>

datatype special = PosInf | NegInf | NaN | NegZero

datatype pyval =
  VNum number | VSpecial special | VStr string | VDate pydate | VDateTime pydatetime

text \<open>
  Four things of the Python runtime are parameters of the model: which characters
  beyond ASCII the regular expression class \<^verbatim>\<open>\w\<close> accepts, the text \<^verbatim>\<open>str\<close> gives for a
  float (its shortest representation that reads back), \<^verbatim>\<open>strftime\<close>, which belongs to
  the platform and may raise, and the limit \<^verbatim>\<open>sys.get_int_max_str_digits()\<close> on the digits
  of an int that is converted to or from a decimal string (4300 unless it was changed,
  and 0 for no limit). A string is a list of 8-bit characters; a character beyond ASCII
  is written as the bytes of its UTF-8 encoding.
\<close>

record pylib =
  nonascii_word :: "char \<Rightarrow> bool"
  float_repr :: "rat \<Rightarrow> string"
  strftime :: "string \<Rightarrow> pydatetime \<Rightarrow> error + string"
  int_max_str_digits :: nat

definition between :: "char \<Rightarrow> char \<Rightarrow> char \<Rightarrow> bool" where
  \<comment> \<open>the character lies in a range of a character class\<close>
  "between lo hi c = ((of_char lo :: nat) \<le> of_char c \<and> (of_char c :: nat) \<le> of_char hi)"

definition is_digit :: "char \<Rightarrow> bool" where
  "is_digit c = between CHR ''0'' CHR ''9'' c"

definition is_word :: "pylib \<Rightarrow> char \<Rightarrow> bool" where
  \<comment> \<open>the class \<^verbatim>\<open>\w\<close>: letters, digits and the underscore\<close>
  "is_word rt c =
     (if of_char c < (128::nat) then
        between CHR ''a'' CHR ''z'' c \<or> between CHR ''A'' CHR ''Z'' c \<or> is_digit c
        \<or> c = CHR ''_''
      else nonascii_word rt c)"

function digits :: "int \<Rightarrow> string" where
  \<comment> \<open>the decimal digits of a number that is not negative\<close>
  "digits n =
     (if n < 10 then [char_of (48 + nat n)]
      else digits (n div 10) @ [char_of (48 + nat (n mod 10))])"
  by pat_completeness auto
termination
  by (relation "measure nat") auto

declare digits.simps [simp del]

definition zfill :: "nat \<Rightarrow> string \<Rightarrow> string" where
  "zfill w s = replicate (w - length s) CHR ''0'' @ s"

definition over_limit :: "pylib \<Rightarrow> nat \<Rightarrow> bool" where
  \<comment> \<open>the count of digits exceeds the limit of the runtime, if there is one\<close>
  "over_limit rt k = (0 < int_max_str_digits rt \<and> int_max_str_digits rt < k)"

definition int_digits :: "pylib \<Rightarrow> int \<Rightarrow> error + string" where
  \<comment> \<open>the decimal digits of the absolute value of an int, as every conversion of an int
      to a decimal string computes them\<close>
  "int_digits rt i =
     (if over_limit rt (length (digits \<bar>i\<bar>)) then Inl ValueError else Inr (digits \<bar>i\<bar>))"

definition str_int :: "pylib \<Rightarrow> int \<Rightarrow> error + string" where
  "str_int rt i = map_sum id (\<lambda>ds. (if i < 0 then ''-'' else []) @ ds) (int_digits rt i)"

definition isoformat :: "pydate \<Rightarrow> string" where
  "isoformat d =
     zfill 4 (digits (year d)) @ ''-'' @ zfill 2 (digits (month d)) @ ''-''
       @ zfill 2 (digits (day d))"

fun str_special :: "special \<Rightarrow> string" where
  "str_special PosInf = ''inf''"
| "str_special NegInf = ''-inf''"
| "str_special NaN = ''nan''"
| "str_special NegZero = ''-0.0''"

definition py_str :: "pylib \<Rightarrow> pyval \<Rightarrow> error + string" where
  \<comment> \<open>the built-in \<^verbatim>\<open>str\<close>\<close>
  "py_str rt v =
     (case v of
        VNum (PyInt i) \<Rightarrow> str_int rt i
      | VNum (PyFloat r) \<Rightarrow> Inr (float_repr rt r)
      | VSpecial x \<Rightarrow> Inr (str_special x)
      | VStr s \<Rightarrow> Inr s
      | VDate d \<Rightarrow> Inr (isoformat d)
      | VDateTime dt \<Rightarrow>
          Inr (isoformat (dt_date dt) @ '' '' @ zfill 2 (digits (hour dt)) @ '':''
                 @ zfill 2 (digits (minute dt)) @ '':'' @ zfill 2 (digits (second dt))
                 @ (if microsecond dt = 0 then []
                    else ''.'' @ zfill 6 (digits (microsecond dt)))))"

fun num_abs :: "number \<Rightarrow> number" where
  "num_abs (PyInt i) = PyInt \<bar>i\<bar>"
| "num_abs (PyFloat r) = PyFloat \<bar>r\<bar>"

text \<open>
  The built-in \<^verbatim>\<open>abs\<close> and the comparison \<^verbatim>\<open>value < 0\<close>. The absolute value of the
  negative zero is the zero, NaN is its own absolute value, and only the negative
  infinity among the special floats is less than zero. A string or a date has no
  absolute value.
\<close>

fun py_abs :: "pyval \<Rightarrow> error + pyval" where
  "py_abs (VNum n) = Inr (VNum (num_abs n))"
| "py_abs (VSpecial PosInf) = Inr (VSpecial PosInf)"
| "py_abs (VSpecial NegInf) = Inr (VSpecial PosInf)"
| "py_abs (VSpecial NaN) = Inr (VSpecial NaN)"
| "py_abs (VSpecial NegZero) = Inr (VNum (PyFloat 0))"
| "py_abs (VStr s) = Inl TypeError"
| "py_abs (VDate d) = Inl TypeError"
| "py_abs (VDateTime dt) = Inl TypeError"

fun py_negative :: "pyval \<Rightarrow> error + bool" where
  "py_negative (VNum n) = Inr (num_val n < 0)"
| "py_negative (VSpecial x) = Inr (x = NegInf)"
| "py_negative (VStr s) = Inl TypeError"
| "py_negative (VDate d) = Inl TypeError"
| "py_negative (VDateTime dt) = Inl TypeError"

text \<open>
  The method \<^verbatim>\<open>str.replace(old, new)\<close>: the occurrences of \<open>old\<close> are found from the
  left and do not overlap. An empty \<open>old\<close> matches before every character and at the end.
\<close>

function replace :: "string \<Rightarrow> string \<Rightarrow> string \<Rightarrow> string" where
  "replace old new s =
     (if old = [] then concat (map (\<lambda>c. new @ [c]) s) @ new
      else if s = [] then []
      else if prefix old s then new @ replace old new (drop (length old) s)
      else hd s # replace old new (tl s))"
  by pat_completeness auto
termination
  by (relation "measure (\<lambda>(old, new, s). length s)") auto

declare replace.simps [simp del]

text \<open>
  The method \<^verbatim>\<open>str.split(sep)\<close> for a separator of one character.
\<close>

fun split_on :: "char \<Rightarrow> string \<Rightarrow> string list" where
  "split_on c [] = [[]]"
| "split_on c (x # xs) =
     (if x = c then [] # split_on c xs
      else (case split_on c xs of [] \<Rightarrow> [[x]] | p # ps \<Rightarrow> (x # p) # ps))"

text \<open>
  The built-in \<^verbatim>\<open>int\<close> on a string: white space around, an optional sign, decimal
  digits with single underscores between them. Anything else raises \<^verbatim>\<open>ValueError\<close>, and
  so do more digits than the limit of the runtime. A string with a character beyond
  ASCII is left to \<open>NotModelled\<close>: \<^verbatim>\<open>int\<close> reads the digits and the white space of Unicode
  as well.
\<close>

definition is_space :: "char \<Rightarrow> bool" where
  "is_space c = (c \<in> set [CHR '' '', CHR 0x09, CHR 0x0A, CHR 0x0B, CHR 0x0C, CHR 0x0D])"

definition strip :: "string \<Rightarrow> string" where
  "strip s = rev (dropWhile is_space (rev (dropWhile is_space s)))"

fun digit_groups_ok :: "string \<Rightarrow> bool" where
  \<comment> \<open>a digit first and last, and no underscore next to another\<close>
  "digit_groups_ok [] = False"
| "digit_groups_ok [c] = is_digit c"
| "digit_groups_ok (c # d # r) =
     (is_digit c \<and> (if d = CHR ''_'' then digit_groups_ok r else digit_groups_ok (d # r)))"

definition digits_val :: "string \<Rightarrow> nat" where
  "digits_val s = foldl (\<lambda>a c. 10 * a + (of_char c - 48)) 0 s"

definition py_int :: "pylib \<Rightarrow> string \<Rightarrow> error + int" where
  "py_int rt s =
     (let t = strip s;
          neg = (t \<noteq> [] \<and> hd t = CHR ''-'');
          body = (if t \<noteq> [] \<and> (hd t = CHR ''-'' \<or> hd t = CHR ''+'') then tl t else t);
          ds = filter (\<lambda>c. c \<noteq> CHR ''_'') body
      in if list_ex (\<lambda>c. (128::nat) \<le> of_char c) s then Inl NotModelled
         else if digit_groups_ok body \<and> \<not> over_limit rt (length ds) then
           Inr ((if neg then - 1 else 1) * int (digits_val ds))
         else Inl ValueError)"

text \<open>
  The format specifications the source uses in f-strings. \<open>group\<close> puts a comma before
  every group of three digits counted from the right. A float is rendered from its exact
  value, rounded to the nearest multiple of the last place, a tie going to the even
  digit; the sign is that of the value, also when the digits round to zero. A special
  float is rendered by its name, and the negative zero as the zero with a minus sign.
  The interpreter accepts a precision up to \<open>max_precision\<close>, the greatest C int; the
  memory a long rendering needs is not part of the model.
\<close>

fun group_rev :: "string \<Rightarrow> string" where
  \<comment> \<open>the digits from the last to the first: a comma after every three that have a successor\<close>
  "group_rev (a # b # c # d # rest) = a # b # c # CHR '','' # group_rev (d # rest)"
| "group_rev ds = ds"

definition group :: "string \<Rightarrow> string" where
  "group ds = rev (group_rev (rev ds))"

definition round_half_even :: "rat \<Rightarrow> int" where
  "round_half_even x =
     (let f = \<lfloor>x\<rfloor>; r = x - of_int f
      in if r < 1 / 2 then f else if 1 / 2 < r then f + 1 else if even f then f else f + 1)"

definition max_precision :: int where
  "max_precision = 2147483647"

definition fmt_int :: "pylib \<Rightarrow> int \<Rightarrow> error + string" where
  \<comment> \<open>an int under the format specification of a single comma\<close>
  "fmt_int rt i =
     map_sum id (\<lambda>ds. (if i < 0 then ''-'' else []) @ group ds) (int_digits rt i)"

definition fmt_float :: "rat \<Rightarrow> nat \<Rightarrow> string" where
  \<comment> \<open>a float under the specification comma, point, the number of decimals, f\<close>
  "fmt_float v d =
     (let m = round_half_even (\<bar>v\<bar> * 10 ^ d)
      in (if v < 0 then ''-'' else []) @ group (digits (m div 10 ^ d))
           @ (if d = 0 then [] else ''.'' @ zfill d (digits (m mod 10 ^ d))))"

fun fmt_special :: "special \<Rightarrow> nat \<Rightarrow> string" where
  \<comment> \<open>a special float under the same specification\<close>
  "fmt_special PosInf d = ''inf''"
| "fmt_special NegInf d = ''-inf''"
| "fmt_special NaN d = ''nan''"
| "fmt_special NegZero d = ''-'' @ fmt_float 0 d"

text \<open>
  The method \<^verbatim>\<open>str.format\<close> with keyword arguments only, for a pattern whose replacement
  fields are plain names. Doubled braces are literal braces. A field with a conversion,
  a format specification, an attribute or an index is left to \<open>NotModelled\<close>.
\<close>

function py_format :: "(string \<rightharpoonup> string) \<Rightarrow> string \<Rightarrow> error + string" where
  "py_format kw s =
     (case s of
        [] \<Rightarrow> Inr []
      | c # cs \<Rightarrow>
          if c = CHR ''{'' then
            (if cs \<noteq> [] \<and> hd cs = CHR ''{'' then map_sum id ((#) c) (py_format kw (tl cs))
             else
               (let field = takeWhile (\<lambda>x. x \<noteq> CHR ''}'') cs;
                    rest = dropWhile (\<lambda>x. x \<noteq> CHR ''}'') cs
                in if list_ex (\<lambda>x. x \<in> set ''{!:.[]'') field then Inl NotModelled
                   else if rest = [] then Inl ValueError
                   else if list_all is_digit field then Inl IndexError
                   else
                     (case kw field of
                        None \<Rightarrow> Inl KeyError
                      | Some v \<Rightarrow> map_sum id ((@) v) (py_format kw (tl rest)))))
          else if c = CHR ''}'' then
            (if cs \<noteq> [] \<and> hd cs = CHR ''}'' then map_sum id ((#) c) (py_format kw (tl cs))
             else Inl ValueError)
          else map_sum id ((#) c) (py_format kw cs))"
  by pat_completeness auto
termination
proof (relation "measure (\<lambda>(kw, s). length s)", goal_cases)
  case 1
  show ?case by simp
next
  case (2 kw s c cs)
  then show ?case by (cases cs) auto
next
  case (3 kw s c cs field rest v)
  have "length (dropWhile (\<lambda>x. x \<noteq> CHR ''}'') cs) \<le> length cs"
    by (rule length_dropWhile_le)
  then have "length (tl (dropWhile (\<lambda>x. x \<noteq> CHR ''}'') cs)) \<le> length cs"
    by simp
  with 3 show ?case by simp
next
  case (4 kw s c cs)
  then show ?case by (cases cs) auto
next
  case (5 kw s c cs)
  then show ?case by simp
qed

declare py_format.simps [simp del]

section \<open>The message formatter\<close>

record MessageFormatter =
  fm_locale :: Locale

definition MessageFormatter_init :: "Locale \<Rightarrow> MessageFormatter" where
  "MessageFormatter_init l = \<lparr>fm_locale = l\<rparr>"

definition locale_separators :: "Locale \<Rightarrow> string \<Rightarrow> string" where
  \<comment> \<open>the three \<^verbatim>\<open>replace\<close> calls of \<^verbatim>\<open>format_number\<close>\<close>
  "locale_separators l formatted =
     replace ''__THOUSANDS__'' (thousands_separator l)
       (replace ''.'' (decimal_separator l) (replace '','' ''__THOUSANDS__'' formatted))"

definition format_number :: "pylib \<Rightarrow> MessageFormatter \<Rightarrow> pyval \<Rightarrow> int \<Rightarrow> error + string" where
  \<comment> \<open>A precision that is negative or above the bound is no format specification; a
      string refuses the comma; a date hands its format specification to \<^verbatim>\<open>strftime\<close>.\<close>
  "format_number rt self v decimals =
     (case v of
        VNum (PyFloat r) \<Rightarrow>
          if decimals < 0 \<or> max_precision < decimals then Inl ValueError
          else Inr (locale_separators (fm_locale self) (fmt_float r (nat decimals)))
      | VSpecial x \<Rightarrow>
          if decimals < 0 \<or> max_precision < decimals then Inl ValueError
          else Inr (locale_separators (fm_locale self) (fmt_special x (nat decimals)))
      | VNum (PyInt i) \<Rightarrow> map_sum id (locale_separators (fm_locale self)) (fmt_int rt i)
      | VStr s \<Rightarrow> Inl ValueError
      | VDate d \<Rightarrow>
          map_sum id (locale_separators (fm_locale self)) (strftime rt '','' (at_midnight d))
      | VDateTime dt \<Rightarrow>
          map_sum id (locale_separators (fm_locale self)) (strftime rt '','' dt))"

definition format_decimal :: "pylib \<Rightarrow> MessageFormatter \<Rightarrow> pyval \<Rightarrow> int \<Rightarrow> error + string" where
  "format_decimal rt self v places = format_number rt self v places"

definition symbol_or_default :: "MessageFormatter \<Rightarrow> string option \<Rightarrow> string" where
  \<comment> \<open>\<^verbatim>\<open>symbol or self.locale.currency_symbol\<close>: \<^verbatim>\<open>None\<close> and the empty string are falsy\<close>
  "symbol_or_default self symbol =
     (case symbol of
        None \<Rightarrow> currency_symbol (fm_locale self)
      | Some s \<Rightarrow> if s \<noteq> [] then s else currency_symbol (fm_locale self))"

definition format_currency ::
  "pylib \<Rightarrow> MessageFormatter \<Rightarrow> pyval \<Rightarrow> string option \<Rightarrow> error + string" where
  "format_currency rt self v symbol =
     (let sym = symbol_or_default self symbol
      in case py_abs v of
           Inl e \<Rightarrow> Inl e
         | Inr a \<Rightarrow>
             (case format_decimal rt self a 2 of
                Inl e \<Rightarrow> Inl e
              | Inr amount \<Rightarrow>
                  (case py_format [''symbol'' \<mapsto> sym, ''amount'' \<mapsto> amount]
                          (currency_format (fm_locale self)) of
                     Inl e \<Rightarrow> Inl e
                   | Inr formatted \<Rightarrow>
                       (case py_negative v of
                          Inl e \<Rightarrow> Inl e
                        | Inr negative \<Rightarrow>
                            if negative then Inr (''-'' @ formatted) else Inr formatted))))"

definition format_date :: "pylib \<Rightarrow> MessageFormatter \<Rightarrow> pyval \<Rightarrow> error + string" where
  "format_date rt self v =
     (case v of
        VDateTime dt \<Rightarrow> strftime rt (date_format (fm_locale self)) (at_midnight (dt_date dt))
      | VDate d \<Rightarrow> strftime rt (date_format (fm_locale self)) (at_midnight d)
      | _ \<Rightarrow> Inl AttributeError)"

definition format_time :: "pylib \<Rightarrow> MessageFormatter \<Rightarrow> pyval \<Rightarrow> error + string" where
  "format_time rt self v =
     (case v of
        VDateTime dt \<Rightarrow> strftime rt (time_format (fm_locale self)) dt
      | VDate d \<Rightarrow> strftime rt (time_format (fm_locale self)) (at_midnight d)
      | _ \<Rightarrow> Inl AttributeError)"

definition format_datetime :: "pylib \<Rightarrow> MessageFormatter \<Rightarrow> pyval \<Rightarrow> error + string" where
  "format_datetime rt self v =
     (case v of
        VDateTime dt \<Rightarrow> strftime rt (datetime_format (fm_locale self)) dt
      | VDate d \<Rightarrow> strftime rt (datetime_format (fm_locale self)) (at_midnight d)
      | _ \<Rightarrow> Inl AttributeError)"

definition apply_format :: "pylib \<Rightarrow> MessageFormatter \<Rightarrow> pyval \<Rightarrow> string \<Rightarrow> error + string" where
  "apply_format rt self v spec =
     (if spec = ''number'' then format_number rt self v 0
      else if spec = ''currency'' then format_currency rt self v None
      else if spec = ''date'' then format_date rt self v
      else if spec = ''time'' then format_time rt self v
      else if spec = ''datetime'' then format_datetime rt self v
      else if prefix ''decimal:'' spec then
        (case split_on CHR '':'' spec of
           _ # p # _ \<Rightarrow>
             (case py_int rt p of
                Inl e \<Rightarrow> Inl e
              | Inr places \<Rightarrow> format_decimal rt self v places)
         | _ \<Rightarrow> Inl IndexError)
      else py_str rt v)"

text \<open>
  The placeholder pattern is an opening brace, one or more word characters, optionally a
  colon and one or more characters other than a closing brace, and a closing brace. Both
  repetitions are greedy, and no shorter repetition can match where the longest fails:
  the character after a shorter run of word characters is a word character, and the
  character after a shorter specification is not a closing brace. \<open>match_at\<close> matches the
  pattern at the start of a string and returns the name, the specification, the matched
  text and the rest of the string.
\<close>

definition match_at :: "pylib \<Rightarrow> string \<Rightarrow> (string \<times> string option \<times> string \<times> string) option" where
  "match_at rt s =
     (case s of
        [] \<Rightarrow> None
      | c # r \<Rightarrow>
          if c \<noteq> CHR ''{'' then None
          else
            (let nm = takeWhile (is_word rt) r; r1 = dropWhile (is_word rt) r
             in if nm = [] then None
                else
                  (case r1 of
                     [] \<Rightarrow> None
                   | d # r2 \<Rightarrow>
                       if d = CHR ''}'' then Some (nm, None, c # nm @ [d], r2)
                       else if d = CHR '':'' then
                         (let sp = takeWhile (\<lambda>x. x \<noteq> CHR ''}'') r2;
                              r3 = dropWhile (\<lambda>x. x \<noteq> CHR ''}'') r2
                          in case r3 of
                               [] \<Rightarrow> None
                             | e # r4 \<Rightarrow>
                                 if sp = [] then None
                                 else Some (nm, Some sp, c # nm @ d # sp @ [e], r4))
                       else None)))"

lemma match_at_shorter:
  assumes "match_at rt s = Some (nm, sp, txt, rest)"
  shows "length rest < length s"
proof -
  have a: "length (dropWhile P xs) \<le> length xs" for P and xs :: string
    by (rule length_dropWhile_le)
  show ?thesis
  proof (cases s)
    case Nil
    with assms show ?thesis by (simp add: match_at_def)
  next
    case (Cons c r)
    show ?thesis
    proof (cases "dropWhile (is_word rt) r")
      case Nil
      with assms Cons show ?thesis
        by (simp add: match_at_def Let_def del: dropWhile_eq_Nil_conv split: if_splits)
    next
      case r1: (Cons d r2)
      have l1: "Suc (length r2) \<le> length r"
        using a [of "is_word rt" r] r1 by simp
      show ?thesis
      proof (cases "dropWhile (\<lambda>x. x \<noteq> CHR ''}'') r2")
        case Nil
        with assms Cons r1 l1 show ?thesis
          by (auto simp add: match_at_def Let_def simp del: dropWhile_eq_Nil_conv
              split: if_splits)
      next
        case r3: (Cons e r4)
        have l2: "Suc (length r4) \<le> length r2"
          using a [of "\<lambda>x. x \<noteq> CHR ''}''" r2] r3 by simp
        from assms Cons r1 r3 l1 l2 show ?thesis
          by (auto simp add: match_at_def Let_def split: if_splits)
      qed
    qed
  qed
qed

text \<open>
  The method \<^verbatim>\<open>sub\<close> of the compiled pattern with a function as replacement: the string
  is scanned once from the left; where the pattern matches, the replacement function is
  called on the match and the scan goes on behind the match; elsewhere the character is
  copied. An exception of the replacement function ends the call.
\<close>

function re_sub ::
  "pylib \<Rightarrow> (string \<Rightarrow> string option \<Rightarrow> string \<Rightarrow> error + string) \<Rightarrow> string \<Rightarrow> error + string" where
  "re_sub rt repl s =
     (case s of
        [] \<Rightarrow> Inr []
      | c # cs \<Rightarrow>
          (case match_at rt s of
             None \<Rightarrow> map_sum id ((#) c) (re_sub rt repl cs)
           | Some (nm, sp, txt, rest) \<Rightarrow>
               (case repl nm sp txt of
                  Inl e \<Rightarrow> Inl e
                | Inr out \<Rightarrow> map_sum id ((@) out) (re_sub rt repl rest))))"
  by pat_completeness auto
termination
  by (relation "measure (\<lambda>(rt, repl, s). length s)") (auto dest: match_at_shorter)

declare re_sub.simps [simp del]

definition replace_match ::
  "pylib \<Rightarrow> MessageFormatter \<Rightarrow> (string \<rightharpoonup> pyval) \<Rightarrow> string \<Rightarrow> string option \<Rightarrow> string
     \<Rightarrow> error + string" where
  \<comment> \<open>the local function \<^verbatim>\<open>replace\<close> of \<^verbatim>\<open>format\<close>; a specification that matched is not empty\<close>
  "replace_match rt self kwargs nm format_spec whole =
     (case kwargs nm of
        None \<Rightarrow> Inr whole
      | Some v \<Rightarrow>
          (case format_spec of
             Some spec \<Rightarrow> apply_format rt self v spec
           | None \<Rightarrow> py_str rt v))"

definition format :: "pylib \<Rightarrow> MessageFormatter \<Rightarrow> string \<Rightarrow> (string \<rightharpoonup> pyval) \<Rightarrow> error + string" where
  "format rt self template kwargs = re_sub rt (replace_match rt self kwargs) template"

section \<open>The translator\<close>

text \<open>
  The dicts of the translator are only read by key, so they are maps. The lock and the
  logger are not part of the model: every method runs alone, and a warning that is
  logged changes no result.
\<close>

record Translator =
  default_locale :: string
  current_locale :: string
  locales :: "string \<rightharpoonup> Locale"
  catalogs :: "string \<rightharpoonup> MessageCatalog"
  formatters :: "string \<rightharpoonup> MessageFormatter"
  fallback_chain :: "string \<rightharpoonup> string list"

definition add_locale :: "Translator \<Rightarrow> Locale \<Rightarrow> Translator" where
  "add_locale tr l =
     tr\<lparr>locales := (locales tr)(code l \<mapsto> l),
        catalogs := (catalogs tr)(code l \<mapsto> MessageCatalog_init l),
        formatters := (formatters tr)(code l \<mapsto> MessageFormatter_init l)\<rparr>"

definition Translator_init :: "string \<Rightarrow> Translator" where
  "Translator_init dflt =
     add_locale
       \<lparr>default_locale = dflt, current_locale = dflt, locales = Map.empty,
        catalogs = Map.empty, formatters = Map.empty, fallback_chain = Map.empty\<rparr>
       (Locale_init ''en'' ''en'' ''English'')"

definition set_locale :: "Translator \<Rightarrow> string \<Rightarrow> Translator \<times> bool" where
  "set_locale tr c =
     (if c \<in> dom (locales tr) then (tr\<lparr>current_locale := c\<rparr>, True) else (tr, False))"

definition set_fallback_chain :: "Translator \<Rightarrow> string \<Rightarrow> string list \<Rightarrow> Translator" where
  "set_fallback_chain tr l fallbacks = tr\<lparr>fallback_chain := (fallback_chain tr)(l \<mapsto> fallbacks)\<rparr>"

definition load_messages :: "Translator \<Rightarrow> string \<Rightarrow> (string \<times> string) list \<Rightarrow> Translator" where
  "load_messages tr l msgs =
     (case catalogs tr l of
        None \<Rightarrow> tr
      | Some c \<Rightarrow> tr\<lparr>catalogs := (catalogs tr)(l \<mapsto> add_messages c msgs)\<rparr>)"

text \<open>
  The loop of \<^verbatim>\<open>_find_message\<close> over the fallback chain returns at the first locale that
  has a catalog with the message. A catalog object and a message object are always
  truthy, so the tests \<^verbatim>\<open>if catalog\<close> and \<^verbatim>\<open>if message\<close> are tests for \<^verbatim>\<open>None\<close>.
\<close>

fun find_in_fallbacks :: "Translator \<Rightarrow> string \<Rightarrow> string \<Rightarrow> string list \<Rightarrow> Message option" where
  "find_in_fallbacks tr k ctx [] = None"
| "find_in_fallbacks tr k ctx (fallback # rest) =
     (case catalogs tr fallback of
        None \<Rightarrow> find_in_fallbacks tr k ctx rest
      | Some c \<Rightarrow>
          (case get c k ctx of
             Some m \<Rightarrow> Some m
           | None \<Rightarrow> find_in_fallbacks tr k ctx rest))"

definition find_message :: "Translator \<Rightarrow> string \<Rightarrow> string \<Rightarrow> string \<Rightarrow> Message option" where
  "find_message tr k l ctx =
     (case (case catalogs tr l of None \<Rightarrow> None | Some c \<Rightarrow> get c k ctx) of
        Some m \<Rightarrow> Some m
      | None \<Rightarrow>
          (case find_in_fallbacks tr k ctx (or_default (fallback_chain tr l) []) of
             Some m \<Rightarrow> Some m
           | None \<Rightarrow>
               if l \<noteq> default_locale tr then
                 (case catalogs tr (default_locale tr) of
                    None \<Rightarrow> None
                  | Some c \<Rightarrow> get c k ctx)
               else None))"

definition locale_or_current :: "Translator \<Rightarrow> string option \<Rightarrow> string" where
  \<comment> \<open>\<^verbatim>\<open>locale or self.current_locale\<close>: \<^verbatim>\<open>None\<close> and the empty string are falsy\<close>
  "locale_or_current tr l =
     (case l of None \<Rightarrow> current_locale tr | Some c \<Rightarrow> if c \<noteq> [] then c else current_locale tr)"

definition formatter_for :: "Translator \<Rightarrow> string \<Rightarrow> error + MessageFormatter" where
  \<comment> \<open>\<^verbatim>\<open>self.formatters.get(locale) or self.formatters[self.default_locale]\<close>\<close>
  "formatter_for tr l =
     (case formatters tr l of
        Some f \<Rightarrow> Inr f
      | None \<Rightarrow>
          (case formatters tr (default_locale tr) of
             Some f \<Rightarrow> Inr f
           | None \<Rightarrow> Inl KeyError))"

definition Translator_t ::
  "pylib \<Rightarrow> Translator \<Rightarrow> string \<Rightarrow> string option \<Rightarrow> string \<Rightarrow> (string \<rightharpoonup> pyval)
     \<Rightarrow> error + string" where
  "Translator_t rt tr k l ctx kwargs =
     (let loc = locale_or_current tr l
      in case find_message tr k loc ctx of
           None \<Rightarrow> Inr k
         | Some message \<Rightarrow>
             (case formatter_for tr loc of
                Inl e \<Rightarrow> Inl e
              | Inr formatter \<Rightarrow> format rt formatter (msg_value message) kwargs))"

definition Translator_tn ::
  "pylib \<Rightarrow> Translator \<Rightarrow> string \<Rightarrow> int \<Rightarrow> string option \<Rightarrow> string \<Rightarrow> (string \<rightharpoonup> pyval)
     \<Rightarrow> error + string" where
  "Translator_tn rt tr k count l ctx kwargs =
     (let loc = locale_or_current tr l
      in case locales tr loc of
           None \<Rightarrow> Inr k
         | Some locale_obj \<Rightarrow>
             (case find_message tr k loc ctx of
                None \<Rightarrow> Inr k
              | Some message \<Rightarrow>
                  (let rule = get_rule (language locale_obj) (PyInt count);
                       template = or_default (map_of (msg_plural_forms message) (rule_value rule))
                                    (msg_value message)
                   in case formatter_for tr loc of
                        Inl e \<Rightarrow> Inl e
                      | Inr formatter \<Rightarrow>
                          format rt formatter template (kwargs(''count'' \<mapsto> VNum (PyInt count))))))"

text \<open>
  The operations that change a translator, and a run of them from the constructor.
\<close>

datatype operation =
  AddLocale Locale
| SetLocale string
| SetFallbackChain string "string list"
| LoadMessages string "(string \<times> string) list"

fun step :: "Translator \<Rightarrow> operation \<Rightarrow> Translator" where
  "step tr (AddLocale l) = add_locale tr l"
| "step tr (SetLocale c) = fst (set_locale tr c)"
| "step tr (SetFallbackChain l fallbacks) = set_fallback_chain tr l fallbacks"
| "step tr (LoadMessages l msgs) = load_messages tr l msgs"

definition run :: "string \<Rightarrow> operation list \<Rightarrow> Translator" where
  "run dflt ops = foldl step (Translator_init dflt) ops"

section \<open>Notions of the statements\<close>


text \<open>
  A runtime and two formatters for the examples. The example runtime accepts no word
  character beyond ASCII and has the limit of 4300 digits; its float text and its
  \<^verbatim>\<open>strftime\<close> are stand-ins that no example reads.
\<close>

definition example_runtime :: pylib where
  "example_runtime =
     \<lparr>nonascii_word = (\<lambda>c. False), float_repr = (\<lambda>r. []), strftime = (\<lambda>f d. Inr f),
      int_max_str_digits = 4300\<rparr>"

definition en_formatter :: MessageFormatter where
  "en_formatter = MessageFormatter_init (Locale_init ''en'' ''en'' ''English'')"

definition french :: Locale where
  "french = Locale_init ''fr'' ''fr'' ''French''"

text \<open>
  The pieces into which the scan of \<^verbatim>\<open>sub\<close> cuts a template: the matches of the
  placeholder pattern, with their name, specification and text, and the characters
  between them. \<open>render\<close> replaces every match by what a replacement function returns for
  it and stops at the first exception.
\<close>

datatype segment = Lit char | Placeholder string "string option" string

function segments :: "pylib \<Rightarrow> string \<Rightarrow> segment list" where
  "segments rt s =
     (case s of
        [] \<Rightarrow> []
      | c # cs \<Rightarrow>
          (case match_at rt s of
             None \<Rightarrow> Lit c # segments rt cs
           | Some (nm, sp, txt, rest) \<Rightarrow> Placeholder nm sp txt # segments rt rest))"
  by pat_completeness auto
termination
  by (relation "measure (\<lambda>(rt, s). length s)") (auto dest: match_at_shorter)

declare segments.simps [simp del]

fun seg_text :: "segment \<Rightarrow> string" where
  "seg_text (Lit c) = [c]"
| "seg_text (Placeholder nm sp txt) = txt"

fun render ::
  "(string \<Rightarrow> string option \<Rightarrow> string \<Rightarrow> error + string) \<Rightarrow> segment list \<Rightarrow> error + string" where
  "render repl [] = Inr []"
| "render repl (Lit c # segs) = map_sum id ((#) c) (render repl segs)"
| "render repl (Placeholder nm sp txt # segs) =
     (case repl nm sp txt of
        Inl e \<Rightarrow> Inl e
      | Inr out \<Rightarrow> map_sum id ((@) out) (render repl segs))"

definition keeps :: "(string \<Rightarrow> string option \<Rightarrow> string \<Rightarrow> error + string) \<Rightarrow> segment \<Rightarrow> bool" where
  "keeps repl seg = (case seg of Lit c \<Rightarrow> True | Placeholder nm sp txt \<Rightarrow> repl nm sp txt = Inr txt)"

text \<open>
  A piece of the output keeps a segment of the template if it is the character of a
  literal segment or, for a placeholder whose name has no value, the text of the
  placeholder.
\<close>

fun keeps_absent :: "(string \<rightharpoonup> pyval) \<Rightarrow> segment \<Rightarrow> string \<Rightarrow> bool" where
  "keeps_absent kwargs (Lit c) piece = (piece = [c])"
| "keeps_absent kwargs (Placeholder nm sp tx) piece = (kwargs nm = None \<longrightarrow> piece = tx)"

text \<open>
  The search order of the specification: the requested locale, its fallback chain in
  the listed order, and the default locale unless it is the requested one. A locale
  contributes the message its catalog gives for the key and the context, and nothing if
  it has no catalog. \<open>first_hit\<close> is the first contribution along a list of locales.
\<close>

definition hit :: "Translator \<Rightarrow> string \<Rightarrow> string \<Rightarrow> string \<Rightarrow> Message option" where
  "hit tr k ctx l = (case catalogs tr l of None \<Rightarrow> None | Some c \<Rightarrow> get c k ctx)"

definition search_order :: "Translator \<Rightarrow> string \<Rightarrow> string list" where
  "search_order tr l =
     l # or_default (fallback_chain tr l) []
       @ (if l \<noteq> default_locale tr then [default_locale tr] else [])"

definition first_hit :: "Translator \<Rightarrow> string \<Rightarrow> string \<Rightarrow> string list \<Rightarrow> Message option" where
  "first_hit tr k ctx ls =
     (case List.map_filter (hit tr k ctx) ls of [] \<Rightarrow> None | m # ms \<Rightarrow> Some m)"

text \<open>
  An example: the locale \<^verbatim>\<open>pt-BR\<close> has an empty catalog and falls back to \<^verbatim>\<open>pt\<close>; the key
  \<^verbatim>\<open>greet\<close> is in the catalogs of \<^verbatim>\<open>pt\<close> and of the default locale \<^verbatim>\<open>en\<close>.
\<close>

definition example_translator :: Translator where
  "example_translator =
     run ''en''
       [AddLocale (Locale_init ''pt-BR'' ''pt'' ''Brasil''),
        AddLocale (Locale_init ''pt'' ''pt'' ''Portugues''),
        SetFallbackChain ''pt-BR'' [''pt''],
        LoadMessages ''pt'' [(''greet'', ''Ola'')],
        LoadMessages ''en'' [(''greet'', ''Hello'')]]"

definition ola :: Message where
  "ola = \<lparr>msg_key = ''greet'', msg_value = ''Ola'', msg_plural_forms = [], msg_context = [],
           msg_description = []\<rparr>"

lemmas ex_defs = example_translator_def run_def Translator_init_def add_locale_def
  set_fallback_chain_def load_messages_def MessageCatalog_init_def MessageFormatter_init_def
  add_def full_key_def


definition succeeds :: "error + 'a \<Rightarrow> bool" where
  "succeeds x = (case x of Inl e \<Rightarrow> False | Inr y \<Rightarrow> True)"











text \<open>
  What \<^verbatim>\<open>to_dict\<close> writes for a message, and the message \<^verbatim>\<open>load_json\<close> makes of that under
  a key. The example catalog has an entry with plural forms and a simple entry.
\<close>

definition exported :: "Message \<Rightarrow> json_value" where
  "exported m =
     (if msg_plural_forms m \<noteq> [] then
        JObject \<lparr>f_value = Some (msg_value m), f_one = None,
                 f_plural = Some (msg_plural_forms m), f_context = None, f_description = None\<rparr>
      else JString (msg_value m))"

definition reimported :: "string \<Rightarrow> Message \<Rightarrow> Message" where
  "reimported k m =
     \<lparr>msg_key = k, msg_value = msg_value m, msg_plural_forms = msg_plural_forms m,
      msg_context = [], msg_description = []\<rparr>"

definition plural_catalog :: MessageCatalog where
  "plural_catalog =
     add (add (MessageCatalog_init (Locale_init ''en'' ''en'' ''English''))
            \<lparr>msg_key = ''items'', msg_value = ''You have {count} item'',
             msg_plural_forms = [(''one'', ''You have {count} item''),
                                 (''other'', ''You have {count} items'')],
             msg_context = ''cart'', msg_description = ''shown in the cart''\<rparr>)
       \<lparr>msg_key = ''welcome'', msg_value = ''Welcome, {name}!'', msg_plural_forms = [],
        msg_context = [], msg_description = []\<rparr>"

text \<open>
  The substitution of both separators at once: every comma of the rendered number
  becomes the thousands separator and every point the decimal separator. A string is
  \<open>plain\<close> if it is made of digits, minus signs and commas; \<open>grouped_int\<close> is an int under
  the format specification of a single comma. The Spanish locale is the one of the
  example of the source; the euro sign is written as its UTF-8 bytes.
\<close>

definition with_separators :: "string \<Rightarrow> string \<Rightarrow> string \<Rightarrow> string" where
  "with_separators thou dec s =
     concat (map (\<lambda>c. if c = CHR '','' then thou else if c = CHR ''.'' then dec else [c]) s)"

definition plain :: "string \<Rightarrow> bool" where
  "plain s = list_all (\<lambda>c. is_digit c \<or> c = CHR ''-'' \<or> c = CHR '','') s"


definition euro :: string where
  "euro = [CHR 0xE2, CHR 0x82, CHR 0xAC]"

definition es_formatter :: MessageFormatter where
  "es_formatter =
     MessageFormatter_init
       ((Locale_init ''es'' ''es'' ''Spanish'')
          \<lparr>decimal_separator := '','', thousands_separator := ''.'', currency_symbol := euro\<rparr>)"

definition euro_formatter :: MessageFormatter where
  "euro_formatter =
     MessageFormatter_init ((Locale_init ''en-IE'' ''en'' ''English (Ireland)'')\<lparr>currency_symbol := euro\<rparr>)"

section \<open>Properties of the plural rules\<close>

lemma get_rule_categorize: "get_rule lang n = categorize lang \<bar>num_val n\<bar>"
  by (simp add: get_rule_def categorize_def Let_def)

lemma get_rule_slavic:
  "lang \<in> {''ru'', ''pl'', ''uk''} \<Longrightarrow> get_rule lang n \<in> {ONE, FEW, MANY}"
proof -
  assume "lang \<in> {''ru'', ''pl'', ''uk''}"
  then have l: "lang \<notin> set [''en'', ''de'', ''es'', ''it'', ''pt'', ''nl'']"
    "lang \<noteq> ''fr''" "lang \<in> set [''ru'', ''pl'', ''uk'']"
    by auto
  show ?thesis
    unfolding get_rule_def Let_def if_not_P [OF l(1)] if_not_P [OF l(2)] if_P [OF l(3)]
    by simp
qed

text \<open>
  Claim C1. \<^verbatim>\<open>PluralRules.get_rule\<close> is a total function of the language tag and the
  absolute value of the count, and it is the decision table of the specification: the
  English-like row for en/de/es/it/pt/nl and for every unlisted tag, the French row, the
  row for ru/pl/uk (which only yields one, few or many) and the Arabic row. The seven
  values the specification lists are the values of the function.
\<close>

theorem get_rule_decision_table:
  "get_rule lang n = categorize lang \<bar>num_val n\<bar>
   \<and> get_rule ''ru'' n \<in> {ONE, FEW, MANY}
   \<and> get_rule ''pl'' n \<in> {ONE, FEW, MANY}
   \<and> get_rule ''uk'' n \<in> {ONE, FEW, MANY}
   \<and> get_rule ''ru'' (PyInt 21) = ONE
   \<and> get_rule ''ru'' (PyInt 22) = FEW
   \<and> get_rule ''ru'' (PyInt 11) = MANY
   \<and> get_rule ''ar'' (PyInt 0) = ZERO
   \<and> get_rule ''ar'' (PyInt 2) = TWO
   \<and> get_rule ''fr'' (PyInt 0) = ONE
   \<and> get_rule ''fr'' (PyInt 2) = OTHER"
proof -
  have v: "get_rule ''ru'' (PyInt 21) = ONE" "get_rule ''ru'' (PyInt 22) = FEW"
    "get_rule ''ru'' (PyInt 11) = MANY" "get_rule ''ar'' (PyInt 0) = ZERO"
    "get_rule ''ar'' (PyInt 2) = TWO" "get_rule ''fr'' (PyInt 0) = ONE"
    "get_rule ''fr'' (PyInt 2) = OTHER"
    by code_simp+
  show ?thesis
    using get_rule_categorize [of lang n] get_rule_slavic [of "''ru''" n]
      get_rule_slavic [of "''pl''" n] get_rule_slavic [of "''uk''" n] v
    by simp
qed

section \<open>The registry of locales\<close>

lemma cat_locale_add [simp]: "cat_locale (add c m) = cat_locale c"
  by (simp add: add_def)

lemma cat_locale_add_messages [simp]: "cat_locale (add_messages c msgs) = cat_locale c"
  by (induction c msgs rule: add_messages.induct) simp_all





lemma step_default [simp]: "default_locale (step tr x) = default_locale tr"
  by (cases x) (simp_all add: add_locale_def set_locale_def set_fallback_chain_def
      load_messages_def split: option.splits)

lemma foldl_default [simp]: "default_locale (foldl step tr ops) = default_locale tr"
  by (induction ops arbitrary: tr) simp_all









section \<open>The scan of a template\<close>

lemma match_at_text:
  assumes "match_at rt s = Some (nm, sp, txt, rest)"
  shows "s = txt @ rest"
proof (cases s)
  case Nil
  with assms show ?thesis by (simp add: match_at_def)
next
  case (Cons c r)
  have w: "r = takeWhile (is_word rt) r @ dropWhile (is_word rt) r" by simp
  show ?thesis
  proof (cases "dropWhile (is_word rt) r")
    case Nil
    with assms Cons show ?thesis
      by (simp add: match_at_def Let_def del: dropWhile_eq_Nil_conv split: if_splits)
  next
    case r1: (Cons d r2)
    have s: "r2 = takeWhile (\<lambda>x. x \<noteq> CHR ''}'') r2 @ dropWhile (\<lambda>x. x \<noteq> CHR ''}'') r2"
      by simp
    show ?thesis
    proof (cases "dropWhile (\<lambda>x. x \<noteq> CHR ''}'') r2")
      case Nil
      with assms Cons r1 w show ?thesis
        by (auto simp add: match_at_def Let_def simp del: dropWhile_eq_Nil_conv
            takeWhile_dropWhile_id split: if_splits)
    next
      case r3: (Cons e r4)
      from assms Cons r1 r3 w s show ?thesis
        by (auto simp add: match_at_def Let_def simp del: dropWhile_eq_Nil_conv
            takeWhile_dropWhile_id split: if_splits)
    qed
  qed
qed

lemma segments_Nil [simp]: "segments rt [] = []"
  by (simp add: segments.simps)

lemma segments_Cons:
  "segments rt (c # cs) =
     (case match_at rt (c # cs) of
        None \<Rightarrow> Lit c # segments rt cs
      | Some (nm, sp, txt, rest) \<Rightarrow> Placeholder nm sp txt # segments rt rest)"
  by (subst segments.simps) simp

lemma re_sub_Nil [simp]: "re_sub rt repl [] = Inr []"
  by (simp add: re_sub.simps)

lemma re_sub_Cons:
  "re_sub rt repl (c # cs) =
     (case match_at rt (c # cs) of
        None \<Rightarrow> map_sum id ((#) c) (re_sub rt repl cs)
      | Some (nm, sp, txt, rest) \<Rightarrow>
          (case repl nm sp txt of
             Inl e \<Rightarrow> Inl e
           | Inr out \<Rightarrow> map_sum id ((@) out) (re_sub rt repl rest)))"
  by (subst re_sub.simps) simp

lemma segments_text: "concat (map seg_text (segments rt s)) = s"
proof (induction rt s rule: segments.induct)
  case (1 rt s)
  show ?case
  proof (cases s)
    case Nil
    then show ?thesis by simp
  next
    case (Cons c cs)
    show ?thesis
    proof (cases "match_at rt s")
      case None
      with Cons "1.IH"(1) show ?thesis by (simp add: segments_Cons)
    next
      case (Some m)
      obtain nm sp tx rest where m: "m = (nm, sp, tx, rest)" by (cases m) auto
      have "concat (map seg_text (segments rt rest)) = rest"
        using "1.IH"(2) Cons Some m by simp
      moreover have "c # cs = tx @ rest" using Some m Cons by (simp add: match_at_text)
      moreover have "segments rt (c # cs) = Placeholder nm sp tx # segments rt rest"
        using Some m Cons by (simp add: segments_Cons)
      ultimately show ?thesis unfolding Cons by simp
    qed
  qed
qed

lemma re_sub_render: "re_sub rt repl s = render repl (segments rt s)"
proof (induction rt repl s rule: re_sub.induct)
  case (1 rt repl s)
  show ?case
  proof (cases s)
    case Nil
    then show ?thesis by simp
  next
    case (Cons c cs)
    show ?thesis
    proof (cases "match_at rt s")
      case None
      with Cons "1.IH"(1) show ?thesis
        by (simp add: segments_Cons re_sub_Cons)
    next
      case (Some m)
      obtain nm sp tx rest where m: "m = (nm, sp, tx, rest)" by (cases m) auto
      show ?thesis
      proof (cases "repl nm sp tx")
        case (Inl e)
        with Cons Some m show ?thesis
          by (simp add: segments_Cons re_sub_Cons)
      next
        case (Inr out)
        have "re_sub rt repl rest = render repl (segments rt rest)"
          using "1.IH"(2) Cons Some m Inr by simp
        with Cons Some m Inr show ?thesis
          by (simp add: segments_Cons re_sub_Cons)
      qed
    qed
  qed
qed

lemma render_keeps:
  "list_all (keeps repl) segs \<Longrightarrow> render repl segs = Inr (concat (map seg_text segs))"
proof (induction segs)
  case Nil
  show ?case by simp
next
  case (Cons seg segs)
  then show ?case by (cases seg) (simp_all add: keeps_def)
qed

lemma format_render:
  "format rt self t kwargs = render (replace_match rt self kwargs) (segments rt t)"
  by (simp add: format_def re_sub_render)

lemma format_empty: "format rt self t Map.empty = Inr t"
proof -
  have "list_all (keeps (replace_match rt self Map.empty)) (segments rt t)"
    by (simp add: list_all_iff keeps_def replace_match_def split: segment.splits)
  then show ?thesis by (simp add: format_render render_keeps segments_text)
qed

lemma not_word_close [simp]: "\<not> is_word rt CHR ''}''"
  by (simp add: is_word_def between_def is_digit_def)

lemma not_word_colon [simp]: "\<not> is_word rt CHR '':''"
  by (simp add: is_word_def between_def is_digit_def)

lemma match_at_other: "c \<noteq> CHR ''{'' \<Longrightarrow> match_at rt (c # cs) = None"
  by (simp add: match_at_def)

lemma re_sub_literal:
  "CHR ''{'' \<notin> set pre \<Longrightarrow> re_sub rt repl (pre @ s) = map_sum id ((@) pre) (re_sub rt repl s)"
proof (induction pre)
  case Nil
  show ?case by (cases "re_sub rt repl s") simp_all
next
  case (Cons c pre)
  then have "c \<noteq> CHR ''{''" by auto
  then have "match_at rt (c # pre @ s) = None" by (rule match_at_other)
  with Cons show ?case by (cases "re_sub rt repl s") (simp_all add: re_sub_Cons)
qed

lemma match_at_name:
  assumes "nm \<noteq> []" and "list_all (is_word rt) nm"
  shows "match_at rt (CHR ''{'' # nm @ CHR ''}'' # post)
     = Some (nm, None, CHR ''{'' # nm @ [CHR ''}''], post)"
proof -
  have a: "\<And>x. x \<in> set nm \<Longrightarrow> is_word rt x" using assms(2) by (simp add: list_all_iff)
  have t: "takeWhile (is_word rt) (nm @ CHR ''}'' # post) = nm"
    using a by (simp add: takeWhile_tail)
  have d: "dropWhile (is_word rt) (nm @ CHR ''}'' # post) = CHR ''}'' # post"
    using a by simp
  show ?thesis using assms(1) by (simp add: match_at_def t d)
qed

lemma match_at_name_spec:
  assumes "nm \<noteq> []" and "list_all (is_word rt) nm" and "sp \<noteq> []" and "CHR ''}'' \<notin> set sp"
  shows "match_at rt (CHR ''{'' # nm @ CHR '':'' # sp @ CHR ''}'' # post)
     = Some (nm, Some sp, CHR ''{'' # nm @ CHR '':'' # sp @ [CHR ''}''], post)"
proof -
  have a: "\<And>x. x \<in> set nm \<Longrightarrow> is_word rt x" using assms(2) by (simp add: list_all_iff)
  have t: "takeWhile (is_word rt) (nm @ CHR '':'' # sp @ CHR ''}'' # post) = nm"
    using a by (simp add: takeWhile_tail)
  have d: "dropWhile (is_word rt) (nm @ CHR '':'' # sp @ CHR ''}'' # post)
      = CHR '':'' # sp @ CHR ''}'' # post"
    using a by simp
  have b: "\<And>x. x \<in> set sp \<Longrightarrow> x \<noteq> CHR ''}''" using assms(4) by auto
  have t2: "takeWhile (\<lambda>x. x \<noteq> CHR ''}'') (sp @ CHR ''}'' # post) = sp"
    using b by (simp add: takeWhile_tail)
  have d2: "dropWhile (\<lambda>x. x \<noteq> CHR ''}'') (sp @ CHR ''}'' # post) = CHR ''}'' # post"
    using b by simp
  show ?thesis using assms(1,3) by (simp add: match_at_def t d t2 d2)
qed

lemma format_placeholder:
  assumes "nm \<noteq> []" and "list_all (is_word rt) nm" and "CHR ''{'' \<notin> set pre"
  shows "format rt self (pre @ ''{'' @ nm @ ''}'' @ post) kwargs
     = (case replace_match rt self kwargs nm None (''{'' @ nm @ ''}'') of
          Inl e \<Rightarrow> Inl e
        | Inr x \<Rightarrow> map_sum id (\<lambda>out. pre @ x @ out) (format rt self post kwargs))"
  using assms
  by (cases "re_sub rt (replace_match rt self kwargs) post")
    (simp_all add: format_def re_sub_literal re_sub_Cons match_at_name split: sum.splits)

lemma format_placeholder_spec:
  assumes "nm \<noteq> []" and "list_all (is_word rt) nm" and "CHR ''{'' \<notin> set pre"
    and "sp \<noteq> []" and "CHR ''}'' \<notin> set sp"
  shows "format rt self (pre @ ''{'' @ nm @ '':'' @ sp @ ''}'' @ post) kwargs
     = (case replace_match rt self kwargs nm (Some sp) (''{'' @ nm @ '':'' @ sp @ ''}'') of
          Inl e \<Rightarrow> Inl e
        | Inr x \<Rightarrow> map_sum id (\<lambda>out. pre @ x @ out) (format rt self post kwargs))"
  using assms
  by (cases "re_sub rt (replace_match rt self kwargs) post")
    (simp_all add: format_def re_sub_literal re_sub_Cons match_at_name_spec split: sum.splits)

lemma render_pieces:
  "render repl segs = Inr out \<Longrightarrow>
   \<exists>pieces. out = concat pieces
     \<and> list_all2 (\<lambda>seg piece. case seg of Lit c \<Rightarrow> piece = [c]
                    | Placeholder nm sp tx \<Rightarrow> repl nm sp tx = Inr piece) segs pieces"
proof (induction segs arbitrary: out)
  case Nil
  then show ?case by simp
next
  case (Cons seg segs)
  show ?case
  proof (cases seg)
    case (Lit c)
    with Cons.prems obtain r where r: "render repl segs = Inr r" "out = c # r"
      by (cases "render repl segs") auto
    from Cons.IH [OF r(1)] obtain pieces where
      p: "r = concat pieces"
        "list_all2 (\<lambda>seg piece. case seg of Lit c \<Rightarrow> piece = [c]
                    | Placeholder nm sp tx \<Rightarrow> repl nm sp tx = Inr piece) segs pieces"
      by blast
    show ?thesis
      by (rule exI [of _ "[c] # pieces"]) (simp add: Lit r p)
  next
    case (Placeholder nm sp tx)
    with Cons.prems obtain x where x: "repl nm sp tx = Inr x"
      by (cases "repl nm sp tx") auto
    with Cons.prems Placeholder obtain r where r: "render repl segs = Inr r" "out = x @ r"
      by (cases "render repl segs") auto
    from Cons.IH [OF r(1)] obtain pieces where
      p: "r = concat pieces"
        "list_all2 (\<lambda>seg piece. case seg of Lit c \<Rightarrow> piece = [c]
                    | Placeholder nm sp tx \<Rightarrow> repl nm sp tx = Inr piece) segs pieces"
      by blast
    show ?thesis
      by (rule exI [of _ "x # pieces"]) (simp add: Placeholder x r p)
  qed
qed

lemma format_pieces:
  assumes "format rt self t kwargs = Inr out"
  shows "\<exists>pieces. out = concat pieces \<and> list_all2 (keeps_absent kwargs) (segments rt t) pieces"
proof -
  from assms have "render (replace_match rt self kwargs) (segments rt t) = Inr out"
    by (simp add: format_render)
  from render_pieces [OF this] obtain pieces where
    p: "out = concat pieces"
      "list_all2 (\<lambda>seg piece. case seg of Lit c \<Rightarrow> piece = [c]
          | Placeholder nm sp tx \<Rightarrow> replace_match rt self kwargs nm sp tx = Inr piece)
        (segments rt t) pieces"
    by blast
  have "list_all2 (keeps_absent kwargs) (segments rt t) pieces"
    using p(2)
  proof (rule list_all2_mono)
    fix seg piece
    assume "case seg of Lit c \<Rightarrow> piece = [c]
          | Placeholder nm sp tx \<Rightarrow> replace_match rt self kwargs nm sp tx = Inr piece"
    then show "keeps_absent kwargs seg piece"
      by (cases seg) (auto simp add: replace_match_def)
  qed
  with p(1) show ?thesis by blast
qed

text \<open>
  Claim C7, as amended. The scan cuts a template into characters and placeholders whose
  texts make up the template again. Whenever \<^verbatim>\<open>format\<close> returns, its output is made of
  one piece for every segment, in order, and the piece of a placeholder whose name is
  absent from the mapping is the text of the placeholder itself; such a placeholder
  raises nothing. A template all of whose placeholders are absent from the mapping is
  returned as it is, so \<^verbatim>\<open>format(t, {})\<close> is \<^verbatim>\<open>t\<close> for every template. For a template
  made of a text without an opening brace, a placeholder with an absent name and any
  rest, the result is that of the rest alone with the text and the placeholder before
  it.
\<close>

theorem absent_placeholders_kept:
  "format rt self t Map.empty = Inr t
   \<and> ((\<forall>nm sp tx. Placeholder nm sp tx \<in> set (segments rt t) \<longrightarrow> kwargs nm = None) \<longrightarrow>
         format rt self t kwargs = Inr t)
   \<and> concat (map seg_text (segments rt t)) = t
   \<and> (format rt self t kwargs = Inr out \<longrightarrow>
         (\<exists>pieces. out = concat pieces
            \<and> list_all2 (keeps_absent kwargs) (segments rt t) pieces))
   \<and> (nm \<noteq> [] \<and> list_all (is_word rt) nm \<and> CHR ''{'' \<notin> set pre \<and> kwargs nm = None \<longrightarrow>
         format rt self (pre @ ''{'' @ nm @ ''}'' @ post) kwargs
           = map_sum id (\<lambda>rest. pre @ ''{'' @ nm @ ''}'' @ rest) (format rt self post kwargs))
   \<and> (nm \<noteq> [] \<and> list_all (is_word rt) nm \<and> CHR ''{'' \<notin> set pre \<and> kwargs nm = None
        \<and> sp \<noteq> [] \<and> CHR ''}'' \<notin> set sp \<longrightarrow>
         format rt self (pre @ ''{'' @ nm @ '':'' @ sp @ ''}'' @ post) kwargs
           = map_sum id (\<lambda>rest. pre @ ''{'' @ nm @ '':'' @ sp @ ''}'' @ rest)
               (format rt self post kwargs))"
proof -
  have a: "replace_match rt self kwargs n s x = Inr x" if "kwargs n = None" for n s x
    using that by (simp add: replace_match_def)
  have b: "format rt self t kwargs = Inr t"
    if h: "\<forall>nm sp tx. Placeholder nm sp tx \<in> set (segments rt t) \<longrightarrow> kwargs nm = None"
  proof -
    have "list_all (keeps (replace_match rt self kwargs)) (segments rt t)"
      using h a by (auto simp add: list_all_iff keeps_def split: segment.splits)
    then show ?thesis by (simp add: format_render render_keeps segments_text)
  qed
  have c: "format rt self (pre @ ''{'' @ nm @ ''}'' @ post) kwargs
           = map_sum id (\<lambda>rest. pre @ ''{'' @ nm @ ''}'' @ rest) (format rt self post kwargs)"
    if "nm \<noteq> []" "list_all (is_word rt) nm" "CHR ''{'' \<notin> set pre" "kwargs nm = None"
    using format_placeholder [OF that(1-3), of self post kwargs] a [OF that(4)] by simp
  have d: "format rt self (pre @ ''{'' @ nm @ '':'' @ sp @ ''}'' @ post) kwargs
           = map_sum id (\<lambda>rest. pre @ ''{'' @ nm @ '':'' @ sp @ ''}'' @ rest)
               (format rt self post kwargs)"
    if "nm \<noteq> []" "list_all (is_word rt) nm" "CHR ''{'' \<notin> set pre" "kwargs nm = None"
      "sp \<noteq> []" "CHR ''}'' \<notin> set sp"
    using format_placeholder_spec [OF that(1-3) that(5,6), of self post kwargs] a [OF that(4)]
    by simp
  from b c d format_pieces [of rt self t kwargs out] show ?thesis
    by (simp add: format_empty segments_text)
qed

theorem absent_placeholders_kept_witness:
  "format example_runtime en_formatter ''Hi {name}, {n}!'' [''n'' \<mapsto> VNum (PyInt 3)]
     = Inr ''Hi {name}, 3!''"
proof -
  have h: "''name'' \<noteq> [] \<and> list_all (is_word example_runtime) ''name''
      \<and> CHR ''{'' \<notin> set ''Hi '' \<and> [''n'' \<mapsto> VNum (PyInt 3)] ''name'' = None"
    by (simp add: is_word_def between_def is_digit_def)
  have r: "format example_runtime en_formatter '', {n}!'' [''n'' \<mapsto> VNum (PyInt 3)]
      = Inr '', 3!''"
    by code_simp
  from h absent_placeholders_kept [where rt = example_runtime and self = en_formatter
      and nm = "''name''" and pre = "''Hi ''" and kwargs = "[''n'' \<mapsto> VNum (PyInt 3)]"
      and post = "'', {n}!''"]
  have "format example_runtime en_formatter (''Hi '' @ ''{'' @ ''name'' @ ''}'' @ '', {n}!'')
        [''n'' \<mapsto> VNum (PyInt 3)]
      = map_sum id (\<lambda>rest. ''Hi '' @ ''{'' @ ''name'' @ ''}'' @ rest)
          (format example_runtime en_formatter '', {n}!'' [''n'' \<mapsto> VNum (PyInt 3)])"
    by blast
  then show ?thesis unfolding r by simp
qed

text \<open>
  The claim as written fails for a mapping with which another placeholder raises: the
  exception ends the call, and there is no output for the absent placeholder to appear
  in.
\<close>

theorem absent_placeholder_lost_counterexample:
  "format example_runtime en_formatter ''{name} {x:decimal:abc}''
     [''x'' \<mapsto> VNum (PyFloat (3 / 2))] = Inl ValueError"
  by code_simp

section \<open>The search for a message\<close>

lemma first_hit_Nil [simp]: "first_hit tr k ctx [] = None"
  by (simp add: first_hit_def map_filter_simps)

lemma first_hit_Cons:
  "first_hit tr k ctx (l # ls) =
     (case hit tr k ctx l of Some m \<Rightarrow> Some m | None \<Rightarrow> first_hit tr k ctx ls)"
  by (simp add: first_hit_def map_filter_simps split: option.splits)

lemma find_in_fallbacks_first_hit:
  "find_in_fallbacks tr k ctx ls = first_hit tr k ctx ls"
  by (induction ls) (simp_all add: first_hit_Cons hit_def split: option.splits)

lemma first_hit_append:
  "first_hit tr k ctx (xs @ ys) =
     (case first_hit tr k ctx xs of Some m \<Rightarrow> Some m | None \<Rightarrow> first_hit tr k ctx ys)"
  by (induction xs) (simp_all add: first_hit_Cons split: option.splits)

lemma find_message_first_hit:
  "find_message tr k l ctx = first_hit tr k ctx (search_order tr l)"
  by (simp add: find_message_def search_order_def first_hit_Cons first_hit_append
      find_in_fallbacks_first_hit hit_def split: option.splits)

lemma get_empty: "messages c = [] \<Longrightarrow> get c k ctx = None"
  by (simp add: get_def)

text \<open>
  Claim C2. \<^verbatim>\<open>_find_message\<close> returns the first hit along the search order: the requested
  locale, its fallback chain in order, then the default locale if it is not the
  requested one. A locale of the chain without a catalog is skipped. The function is
  total, so the search ends. When a locale has an empty catalog and the fallback chain
  of one locale, whose catalog has the key, the message found is that of the fallback
  locale whatever the default locale holds, and \<^verbatim>\<open>t\<close> returns its text, formatted with
  the values passed.
\<close>

theorem find_message_search_order:
  "find_message tr k l ctx = first_hit tr k ctx (search_order tr l)
   \<and> (catalogs tr x = None \<longrightarrow>
        find_in_fallbacks tr k ctx (x # rest) = find_in_fallbacks tr k ctx rest)
   \<and> (catalogs tr a = Some ca \<and> messages ca = [] \<and> fallback_chain tr a = Some [b]
        \<and> catalogs tr b = Some cb \<and> get cb k ctx = Some mb
        \<and> formatters tr a = Some f \<and> locale_or_current tr lo = a \<longrightarrow>
        find_message tr k a ctx = Some mb
        \<and> Translator_t rt tr k lo ctx kwargs = format rt f (msg_value mb) kwargs
        \<and> Translator_t rt tr k lo ctx Map.empty = Inr (msg_value mb))"
proof -
  have 1: "find_message tr k l ctx = first_hit tr k ctx (search_order tr l)"
    by (rule find_message_first_hit)
  have 2: "find_in_fallbacks tr k ctx (x # rest) = find_in_fallbacks tr k ctx rest"
    if "catalogs tr x = None"
    using that by simp
  have 3: "find_message tr k a ctx = Some mb
        \<and> Translator_t rt tr k lo ctx kwargs = format rt f (msg_value mb) kwargs
        \<and> Translator_t rt tr k lo ctx Map.empty = Inr (msg_value mb)"
    if h: "catalogs tr a = Some ca" "messages ca = []" "fallback_chain tr a = Some [b]"
      "catalogs tr b = Some cb" "get cb k ctx = Some mb" "formatters tr a = Some f"
      "locale_or_current tr lo = a"
  proof -
    have fm: "find_message tr k a ctx = Some mb"
      using h by (simp add: find_message_def get_empty or_default_def)
    have t: "Translator_t rt tr k lo ctx kw = format rt f (msg_value mb) kw" for kw
      using h fm by (simp add: Translator_t_def formatter_for_def)
    from fm t [of kwargs] t [of Map.empty] show ?thesis by (simp add: format_empty)
  qed
  from 1 2 3 show ?thesis by blast
qed

theorem find_message_search_order_witness:
  "Translator_t example_runtime example_translator ''greet'' (Some ''pt-BR'') [] Map.empty
     = Inr ''Ola''
   \<and> find_message example_translator ''greet'' ''pt-BR'' [] = Some ola
   \<and> find_in_fallbacks example_translator ''greet'' [] [''xx'', ''pt'']
       = find_in_fallbacks example_translator ''greet'' [] [''pt'']"
proof -
  have h: "catalogs example_translator ''pt-BR''
        = Some (MessageCatalog_init (Locale_init ''pt-BR'' ''pt'' ''Brasil''))"
    "messages (MessageCatalog_init (Locale_init ''pt-BR'' ''pt'' ''Brasil'')) = []"
    "fallback_chain example_translator ''pt-BR'' = Some [''pt'']"
    "catalogs example_translator ''pt''
        = Some (add (MessageCatalog_init (Locale_init ''pt'' ''pt'' ''Portugues'')) ola)"
    "get (add (MessageCatalog_init (Locale_init ''pt'' ''pt'' ''Portugues'')) ola) ''greet'' []
        = Some ola"
    "formatters example_translator ''pt-BR''
        = Some (MessageFormatter_init (Locale_init ''pt-BR'' ''pt'' ''Brasil''))"
    "locale_or_current example_translator (Some ''pt-BR'') = ''pt-BR''"
    "catalogs example_translator ''xx'' = None"
    by (simp_all add: ex_defs Locale_init_def ola_def get_def locale_or_current_def)
  have v: "msg_value ola = ''Ola''" by (simp add: ola_def)
  note th =
      find_message_search_order [of example_translator "''greet''" "''pt-BR''" "[]" "''xx''"
        "[''pt'']" "''pt-BR''" "MessageCatalog_init (Locale_init ''pt-BR'' ''pt'' ''Brasil'')"
        "''pt''" "add (MessageCatalog_init (Locale_init ''pt'' ''pt'' ''Portugues'')) ola" ola
        "MessageFormatter_init (Locale_init ''pt-BR'' ''pt'' ''Brasil'')" "Some ''pt-BR''"
        example_runtime Map.empty]
  from th h(8) have a: "find_in_fallbacks example_translator ''greet'' [] [''xx'', ''pt'']
       = find_in_fallbacks example_translator ''greet'' [] [''pt'']"
    by blast
  from th h(1-7) have b: "find_message example_translator ''greet'' ''pt-BR'' [] = Some ola"
    and c: "Translator_t example_runtime example_translator ''greet'' (Some ''pt-BR'') []
              Map.empty = Inr (msg_value ola)"
    by blast+
  from a b c v show ?thesis by simp
qed

section \<open>One pass over the template\<close>



section \<open>Exceptions of the formatter\<close>

lemma succeeds_Inr [simp]: "succeeds (Inr y)"
  by (simp add: succeeds_def)

lemma succeeds_Inl [simp]: "\<not> succeeds (Inl e)"
  by (simp add: succeeds_def)

lemma succeeds_map_sum [simp]: "succeeds (map_sum f g x) = succeeds x"
  by (cases x) simp_all


lemma py_format_Nil [simp]: "py_format kw [] = Inr []"
  by (subst py_format.simps) simp
















section \<open>Import and export of a catalog\<close>

lemma to_dict_exported: "to_dict c = map (\<lambda>(k, m). (k, exported m)) (messages c)"
  by (simp add: to_dict_def exported_def case_prod_unfold)

lemma update_fresh: "k \<notin> fst ` set xs \<Longrightarrow> AList.update k v xs = xs @ [(k, v)]"
  by (induction xs) auto

lemma load_data_exported:
  "distinct (map fst ms) \<Longrightarrow> fst ` set ms \<inter> fst ` set (messages c) = {} \<Longrightarrow>
   messages (fst (load_data c (map (\<lambda>(k, m). (k, exported m)) ms)))
     = messages c @ map (\<lambda>(k, m). (k, reimported k m)) ms
   \<and> snd (load_data c (map (\<lambda>(k, m). (k, exported m)) ms)) = length ms"
proof (induction ms arbitrary: c)
  case Nil
  show ?case by simp
next
  case (Cons p ms)
  obtain k m where p: "p = (k, m)" by (cases p)
  define c' where "c' = add c (reimported k m)"
  have fresh: "k \<notin> fst ` set (messages c)" using Cons.prems(2) p by auto
  have mc: "messages c' = messages c @ [(k, reimported k m)]"
    using fresh by (simp add: c'_def add_def full_key_def reimported_def update_fresh)
  have step: "load_data c ((k, exported m) # rest)
      = (fst (load_data c' rest), snd (load_data c' rest) + 1)" for rest
    by (simp add: exported_def c'_def reimported_def or_default_def Let_def)
  have d: "distinct (map fst ms)" using Cons.prems(1) by simp
  have i: "fst ` set ms \<inter> fst ` set (messages c') = {}"
    using Cons.prems p mc by auto
  let ?f = "\<lambda>(k, m). (k, exported m)"
  have l: "load_data c (map ?f (p # ms))
      = (fst (load_data c' (map ?f ms)), snd (load_data c' (map ?f ms)) + 1)"
    unfolding p by (simp only: list.map prod.case step)
  from Cons.IH [OF d i] show ?case
    unfolding l by (simp add: p mc)
qed

lemma exported_reimported: "exported (reimported k m) = exported m"
  by (simp add: exported_def reimported_def)

text \<open>
  Claim C6. For every catalog (a dict has distinct keys), exporting it, importing the
  result into a new catalog and exporting again gives the first export, and the import
  counts every entry. Export writes an entry with plural forms as the object of its
  value and plural forms, and any other entry as its value.
\<close>

theorem export_import_export:
  "distinct (map fst (messages c)) \<longrightarrow>
     to_dict (fst (load_data (MessageCatalog_init l) (to_dict c))) = to_dict c
     \<and> snd (load_data (MessageCatalog_init l) (to_dict c)) = length (messages c)"
proof
  assume d: "distinct (map fst (messages c))"
  have e: "fst ` set (messages c) \<inter> fst ` set (messages (MessageCatalog_init l)) = {}"
    by (simp add: MessageCatalog_init_def)
  have m: "messages (MessageCatalog_init l) = []" by (simp add: MessageCatalog_init_def)
  let ?c' = "fst (load_data (MessageCatalog_init l) (to_dict c))"
  from load_data_exported [OF d e]
  have r: "messages ?c' = map (\<lambda>(k, m). (k, reimported k m)) (messages c)"
    and n: "snd (load_data (MessageCatalog_init l) (to_dict c)) = length (messages c)"
    by (simp_all add: to_dict_exported [of c] m)
  have "to_dict ?c' = map (\<lambda>(k, m). (k, exported m)) (messages ?c')"
    by (rule to_dict_exported)
  also have "\<dots> = map (\<lambda>(k, m). (k, exported m)) (messages c)"
    unfolding r by (simp add: case_prod_unfold exported_reimported)
  also have "\<dots> = to_dict c" by (rule to_dict_exported [symmetric])
  finally show "to_dict ?c' = to_dict c
     \<and> snd (load_data (MessageCatalog_init l) (to_dict c)) = length (messages c)"
    using n by simp
qed

theorem export_import_export_witness:
  "to_dict (fst (load_data (MessageCatalog_init french) (to_dict plural_catalog)))
     = to_dict plural_catalog
   \<and> to_dict plural_catalog
       = [(''cart:items'',
           JObject \<lparr>f_value = Some ''You have {count} item'', f_one = None,
                    f_plural = Some [(''one'', ''You have {count} item''),
                                     (''other'', ''You have {count} items'')],
                    f_context = None, f_description = None\<rparr>),
          (''welcome'', JString ''Welcome, {name}!'')]"
proof -
  have d: "distinct (map fst (messages plural_catalog))"
    by (simp add: plural_catalog_def add_def full_key_def MessageCatalog_init_def)
  have t: "to_dict plural_catalog
       = [(''cart:items'',
           JObject \<lparr>f_value = Some ''You have {count} item'', f_one = None,
                    f_plural = Some [(''one'', ''You have {count} item''),
                                     (''other'', ''You have {count} items'')],
                    f_context = None, f_description = None\<rparr>),
          (''welcome'', JString ''Welcome, {name}!'')]"
    by (simp add: plural_catalog_def add_def full_key_def MessageCatalog_init_def to_dict_def)
  from d t export_import_export [of plural_catalog french] show ?thesis by blast
qed

text \<open>
  Claim C5. For an object without the field \<^verbatim>\<open>value\<close>, whose field \<^verbatim>\<open>plural\<close> has a text for
  \<^verbatim>\<open>one\<close>, the claim gives the message that text as its value. The source looks \<^verbatim>\<open>one\<close> up
  in the object itself, not in its plural mapping, so the value of the message is empty;
  the plural forms are copied.
\<close>

theorem load_data_plural_one_not_read:
  "messages (fst (load_data (MessageCatalog_init french)
      [(''items'',
        JObject \<lparr>f_value = None, f_one = None,
                 f_plural = Some [(''one'', ''1 item''), (''other'', ''n items'')],
                 f_context = None, f_description = None\<rparr>)]))
   = [(''items'',
       \<lparr>msg_key = ''items'', msg_value = [],
        msg_plural_forms = [(''one'', ''1 item''), (''other'', ''n items'')],
        msg_context = [], msg_description = []\<rparr>)]"
  by (simp add: MessageCatalog_init_def add_def full_key_def or_default_def)

section \<open>Replacing the separators\<close>

lemma replace_Nil [simp]: "old \<noteq> [] \<Longrightarrow> replace old new [] = []"
  by (simp add: replace.simps)

lemma replace_prefix: "old \<noteq> [] \<Longrightarrow> replace old new (old @ s) = new @ replace old new s"
  by (subst replace.simps) simp

lemma replace_skip:
  "old \<noteq> [] \<Longrightarrow> \<not> prefix old (c # s) \<Longrightarrow> replace old new (c # s) = c # replace old new s"
  by (subst replace.simps) simp

lemma replace_one:
  "replace [a] new s = concat (map (\<lambda>c. if c = a then new else [c]) s)"
proof (induction s)
  case Nil
  show ?case by simp
next
  case (Cons c s)
  show ?case
  proof (cases "c = a")
    case True
    then show ?thesis using replace_prefix [of "[a]" new s] Cons by simp
  next
    case False
    then show ?thesis using replace_skip [of "[a]" c s new] Cons by simp
  qed
qed

lemma replace_absent: "old \<noteq> [] \<Longrightarrow> hd old \<notin> set s \<Longrightarrow> replace old new s = s"
proof (induction s)
  case Nil
  then show ?case by simp
next
  case (Cons c s)
  then have "\<not> prefix old (c # s)" by (cases old) auto
  with Cons show ?case by (simp add: replace_skip)
qed

lemma replace_over:
  assumes "old \<noteq> []" and "\<not> sublist old xs" and "ys \<noteq> []" and "hd ys \<notin> set old"
  shows "replace old new (xs @ ys) = xs @ replace old new ys"
  using assms(2)
proof (induction xs)
  case Nil
  show ?case by simp
next
  case (Cons x xs)
  have n: "\<not> prefix old (x # xs @ ys)"
  proof
    assume "prefix old (x # xs @ ys)"
    then have "prefix old ((x # xs) @ ys)" by simp
    then consider "prefix old (x # xs)" | us where "old = (x # xs) @ us" "prefix us ys"
      unfolding prefix_append by blast
    then show False
    proof cases
      case 1
      then show ?thesis using Cons.prems by (simp add: sublist_Cons_right)
    next
      case 2
      show ?thesis
      proof (cases us)
        case Nil
        with 2 have "prefix old (x # xs)" by simp
        then show ?thesis using Cons.prems by (simp add: sublist_Cons_right)
      next
        case (Cons u us')
        with 2(2) assms(3) have "hd ys = u" by (cases ys) simp_all
        with 2(1) Cons assms(4) show ?thesis by simp
      qed
    qed
  qed
  have "\<not> sublist old xs" using Cons.prems by (simp add: sublist_Cons_right)
  with Cons.IH n assms(1) show ?case by (simp add: replace_skip)
qed

lemma digit_not_token: "is_digit c \<Longrightarrow> c \<notin> set ''__THOUSANDS__''"
  by (auto simp add: is_digit_def between_def)

lemma token_pass:
  "plain a \<Longrightarrow>
   replace ''__THOUSANDS__'' thou
     (concat (map (\<lambda>c. if c = CHR '','' then ''__THOUSANDS__'' else [c]) a) @ suf)
   = concat (map (\<lambda>c. if c = CHR '','' then thou else [c]) a)
       @ replace ''__THOUSANDS__'' thou suf"
proof (induction a)
  case Nil
  show ?case by simp
next
  case (Cons c a)
  then have p: "plain a" by (simp add: plain_def)
  show ?case
  proof (cases "c = CHR '',''")
    case True
    then show ?thesis
      using replace_prefix [of "''__THOUSANDS__''" thou] Cons.IH [OF p] by simp
  next
    case False
    with Cons.prems have "c \<notin> set ''__THOUSANDS__''"
      using digit_not_token [of c] by (auto simp add: plain_def)
    then have "\<not> prefix ''__THOUSANDS__'' (c # s)" for s by auto
    with False show ?thesis using Cons.IH [OF p] by (simp add: replace_skip)
  qed
qed

lemma is_digit_char_of: "k < 10 \<Longrightarrow> is_digit (char_of (48 + k :: nat))"
  by (simp add: is_digit_def between_def)

lemma is_digit_zero: "is_digit CHR ''0''"
  by (simp add: is_digit_def between_def)

lemma digits_are_digits: "list_all is_digit (digits n)"
proof (induction n rule: digits.induct)
  case (1 n)
  have m: "nat (n mod 10) < 10" by simp
  show ?case
  proof (cases "n < 10")
    case True
    then have "nat n < 10" by simp
    with True show ?thesis by (subst digits.simps) (simp add: is_digit_char_of)
  next
    case False
    then show ?thesis using 1 m by (subst digits.simps) (simp add: is_digit_char_of)
  qed
qed

lemma digits_not_empty: "digits n \<noteq> []"
  by (subst digits.simps) simp

lemma digits_length: "0 < d \<Longrightarrow> n < 10 ^ d \<Longrightarrow> length (digits n) \<le> d"
proof (induction n arbitrary: d rule: digits.induct)
  case (1 n)
  show ?case
  proof (cases "n < 10")
    case True
    with 1(2) show ?thesis by (subst digits.simps) simp
  next
    case False
    obtain e where e: "d = Suc e" using 1(2) by (cases d) auto
    have "e \<noteq> 0" using False 1(3) e by (cases e) auto
    moreover have "n div 10 < x" if "n < 10 * x" for x :: int
      using that by presburger
    then have "n div 10 < 10 ^ e" using 1(3) e by simp
    ultimately have "length (digits (n div 10)) \<le> e" using 1(1) [OF False, of e] by simp
    then show ?thesis using False e by (subst digits.simps) simp
  qed
qed

lemma zfill_digits:
  "0 < d \<Longrightarrow> n < 10 ^ d \<Longrightarrow>
   length (zfill d (digits n)) = d \<and> list_all is_digit (zfill d (digits n))"
  using digits_length [of d n] digits_are_digits [of n]
  by (auto simp add: zfill_def list_all_iff is_digit_zero)

lemma plain_digits: "list_all is_digit ds \<Longrightarrow> plain ds"
  by (simp add: plain_def list_all_iff)

lemma plain_Cons [simp]:
  "plain (c # s) = ((is_digit c \<or> c = CHR ''-'' \<or> c = CHR '','') \<and> plain s)"
  by (simp add: plain_def)

lemma plain_Nil [simp]: "plain []"
  by (simp add: plain_def)

lemma plain_append [simp]: "plain (a @ b) = (plain a \<and> plain b)"
  by (simp add: plain_def)

lemma plain_rev [simp]: "plain (rev s) = plain s"
  by (simp add: plain_def)

lemma group_rev_plain: "plain ds \<Longrightarrow> plain (group_rev ds)"
  by (induction ds rule: group_rev.induct) simp_all

lemma group_plain: "list_all is_digit ds \<Longrightarrow> plain (group ds)"
  by (simp add: group_def group_rev_plain plain_digits)

lemma digit_facts:
  "is_digit c \<Longrightarrow> c \<noteq> CHR '','' \<and> c \<noteq> CHR ''.'' \<and> c \<noteq> CHR ''_'' \<and> c \<noteq> CHR ''-''"
  by (auto simp add: is_digit_def between_def)

lemma concat_map_same: "(\<And>c. c \<in> set s \<Longrightarrow> f c = [c]) \<Longrightarrow> concat (map f s) = s"
  by (induction s) simp_all

lemma plain_no_point:
  "plain a \<Longrightarrow>
   CHR ''.'' \<notin> set (concat (map (\<lambda>c. if c = CHR '','' then ''__THOUSANDS__'' else [c]) a))"
  by (induction a) (auto simp add: plain_def dest: digit_facts)

lemma with_separators_append [simp]:
  "with_separators thou dec (a @ b) = with_separators thou dec a @ with_separators thou dec b"
  by (simp add: with_separators_def)

lemma with_separators_plain:
  "plain a \<Longrightarrow> with_separators thou dec a = concat (map (\<lambda>c. if c = CHR '','' then thou else [c]) a)"
  by (induction a) (auto simp add: plain_def with_separators_def dest: digit_facts)

lemma with_separators_digits: "list_all is_digit ds \<Longrightarrow> with_separators thou dec ds = ds"
  unfolding with_separators_def
  by (rule concat_map_same) (auto simp add: list_all_iff dest: digit_facts)

lemma locale_separators_plain:
  assumes "plain a"
  shows "locale_separators l a
     = with_separators (thousands_separator l) (decimal_separator l) a"
proof -
  let ?f = "\<lambda>c. if c = CHR '','' then ''__THOUSANDS__'' else [c]"
  have 1: "replace '','' ''__THOUSANDS__'' a = concat (map ?f a)" by (simp add: replace_one)
  have 2: "replace ''.'' (decimal_separator l) (concat (map ?f a)) = concat (map ?f a)"
    using plain_no_point [OF assms] by (simp add: replace_absent)
  have 3: "replace ''__THOUSANDS__'' (thousands_separator l) (concat (map ?f a))
      = concat (map (\<lambda>c. if c = CHR '','' then thousands_separator l else [c]) a)"
    using token_pass [OF assms, of "thousands_separator l" "[]"] by simp
  show ?thesis
    unfolding locale_separators_def 1 2 3 by (simp add: with_separators_plain [OF assms])
qed

lemma locale_separators_point:
  assumes "plain a" and "fs \<noteq> []" and "list_all is_digit fs"
    and "\<not> sublist ''__THOUSANDS__'' (decimal_separator l)"
  shows "locale_separators l (a @ ''.'' @ fs)
     = with_separators (thousands_separator l) (decimal_separator l) (a @ ''.'' @ fs)"
proof -
  let ?f = "\<lambda>c. if c = CHR '','' then ''__THOUSANDS__'' else [c]"
  let ?T = "''__THOUSANDS__''"
  have fd: "\<And>c. c \<in> set fs \<Longrightarrow> is_digit c" using assms(3) by (simp add: list_all_iff)
  have f1: "concat (map ?f fs) = fs"
    by (rule concat_map_same) (auto dest: fd digit_facts)
  have 1: "replace '','' ?T (a @ ''.'' @ fs) = concat (map ?f a) @ ''.'' @ fs"
    by (simp add: replace_one f1)
  have f2: "concat (map (\<lambda>c. if c = CHR ''.'' then decimal_separator l else [c]) fs) = fs"
    by (rule concat_map_same) (auto dest: fd digit_facts)
  have a2: "concat (map (\<lambda>c. if c = CHR ''.'' then decimal_separator l else [c])
        (concat (map ?f a))) = concat (map ?f a)"
    by (rule concat_map_same) (use plain_no_point [OF assms(1)] in auto)
  have 2: "replace ''.'' (decimal_separator l) (concat (map ?f a) @ ''.'' @ fs)
      = concat (map ?f a) @ decimal_separator l @ fs"
    by (simp add: replace_one f2 a2)
  have h: "hd fs \<notin> set ?T"
    using assms(2) fd [of "hd fs"] digit_not_token [of "hd fs"] by simp
  have u: "hd ?T \<notin> set fs" using fd digit_facts by auto
  have 3: "replace ?T (thousands_separator l) (concat (map ?f a) @ decimal_separator l @ fs)
      = concat (map (\<lambda>c. if c = CHR '','' then thousands_separator l else [c]) a)
          @ decimal_separator l @ fs"
    using token_pass [OF assms(1), of "thousands_separator l" "decimal_separator l @ fs"]
      replace_over [OF _ assms(4) assms(2) h, of "thousands_separator l"]
      replace_absent [OF _ u, of "thousands_separator l"]
    by simp
  have w: "with_separators (thousands_separator l) (decimal_separator l) (a @ ''.'' @ fs)
      = concat (map (\<lambda>c. if c = CHR '','' then thousands_separator l else [c]) a)
          @ decimal_separator l @ fs"
    using with_separators_plain [OF assms(1)] with_separators_digits [OF assms(3)]
    by (simp add: with_separators_def)
  show ?thesis unfolding locale_separators_def 1 2 3 w ..
qed



lemma fmt_float_shape:
  "\<exists>a fs. plain a \<and> list_all is_digit fs \<and> length fs = d
     \<and> fmt_float r d = a @ (if d = 0 then [] else ''.'' @ fs)"
proof -
  define m where "m = round_half_even (\<bar>r\<bar> * 10 ^ d)"
  define a where "a = (if r < 0 then ''-'' else []) @ group (digits (m div 10 ^ d))"
  define fs where "fs = (if d = 0 then [] else zfill d (digits (m mod 10 ^ d)))"
  have pa: "plain a" by (simp add: a_def group_plain digits_are_digits)
  have "length fs = d \<and> list_all is_digit fs"
  proof (cases "d = 0")
    case True
    then show ?thesis by (simp add: fs_def)
  next
    case False
    then have "0 < d" by simp
    moreover have "m mod 10 ^ d < 10 ^ d" by simp
    ultimately show ?thesis using False zfill_digits [of d "m mod 10 ^ d"] by (simp add: fs_def)
  qed
  moreover have "fmt_float r d = a @ (if d = 0 then [] else ''.'' @ fs)"
    by (simp add: fmt_float_def Let_def m_def a_def fs_def)
  ultimately show ?thesis using pa by blast
qed

lemma locale_separators_shape:
  assumes "plain a" and "list_all is_digit fs" and "length fs = d"
    and "\<not> sublist ''__THOUSANDS__'' (decimal_separator l)"
  shows "locale_separators l (a @ (if d = 0 then [] else ''.'' @ fs))
     = with_separators (thousands_separator l) (decimal_separator l)
         (a @ (if d = 0 then [] else ''.'' @ fs))"
proof (cases "d = 0")
  case True
  with assms(1) show ?thesis by (simp add: locale_separators_plain)
next
  case False
  with assms(3) have "fs \<noteq> []" by auto
  from locale_separators_point [OF assms(1) this assms(2) assms(4)] False show ?thesis by simp
qed

lemma locale_separators_fmt_float:
  assumes "\<not> sublist ''__THOUSANDS__'' (decimal_separator l)"
  shows "locale_separators l (fmt_float r d)
     = with_separators (thousands_separator l) (decimal_separator l) (fmt_float r d)"
proof -
  obtain a fs where s: "plain a" "list_all is_digit fs" "length fs = d"
      "fmt_float r d = a @ (if d = 0 then [] else ''.'' @ fs)"
    using fmt_float_shape [of d r] by blast
  show ?thesis unfolding s(4) using s(1-3) assms by (rule locale_separators_shape)
qed


lemma locale_separators_untouched:
  assumes "CHR '','' \<notin> set s" and "CHR ''.'' \<notin> set s" and "CHR ''_'' \<notin> set s"
  shows "locale_separators l s = s"
proof -
  have 1: "replace '','' ''__THOUSANDS__'' s = s"
    using assms(1) by (simp add: replace_absent)
  have 2: "replace ''.'' (decimal_separator l) s = s"
    using assms(2) by (simp add: replace_absent)
  have 3: "replace ''__THOUSANDS__'' (thousands_separator l) s = s"
    using assms(3) by (simp add: replace_absent)
  show ?thesis by (simp add: locale_separators_def 1 2 3)
qed




section \<open>Currency amounts\<close>

lemma py_format_symbol_amount:
  "py_format [''symbol'' \<mapsto> s, ''amount'' \<mapsto> a] ''{symbol}{amount}'' = Inr (s @ a)"
  by (simp add: py_format.simps Let_def is_digit_def between_def)

lemma fmt_float_unsigned: "0 \<le> r \<Longrightarrow> CHR ''-'' \<notin> set (fmt_float r d)"
proof -
  have gr: "CHR ''-'' \<notin> set ds \<Longrightarrow> CHR ''-'' \<notin> set (group_rev ds)" for ds
    by (induction ds rule: group_rev.induct) simp_all
  have g: "CHR ''-'' \<notin> set (group ds)" if "list_all is_digit ds" for ds
  proof -
    have "CHR ''-'' \<notin> set (rev ds)" using that digit_facts by (auto simp add: list_all_iff)
    then have "CHR ''-'' \<notin> set (group_rev (rev ds))" by (rule gr)
    then show ?thesis by (simp add: group_def)
  qed
  have z: "CHR ''-'' \<notin> set (zfill d (digits n))" for n
    using digits_are_digits [of n] digit_facts
    by (auto simp add: zfill_def list_all_iff)
  assume "0 \<le> r"
  then show ?thesis
    using g [OF digits_are_digits] z by (simp add: fmt_float_def Let_def)
qed

text \<open>
  Claim C9, as amended. For a finite float, \<^verbatim>\<open>format_currency\<close> renders the absolute
  value with two fractional digits and no sign, puts the symbol and this amount into the
  currency layout of the locale, and then puts a minus sign before the whole result if
  and only if the value is less than zero; an exception of the layout is passed on. With
  the layout \<^verbatim>\<open>{symbol}{amount}\<close> the result is the sign, the symbol and the amount. As in
  claim C8, the decimal separator must not contain the token \<^verbatim>\<open>__THOUSANDS__\<close>. The
  negative zero is not less than zero and gives what the zero gives; an infinity or NaN
  gives \<^verbatim>\<open>inf\<close> or \<^verbatim>\<open>nan\<close> for the amount, with the minus sign for the negative infinity.
  With the euro sign as symbol, the float nearest to -12.3 gives the minus sign, the
  euro sign and \<^verbatim>\<open>12.30\<close>.
\<close>

theorem format_currency_sign:
  "(\<not> sublist ''__THOUSANDS__'' (decimal_separator (fm_locale self)) \<longrightarrow>
      format_currency rt self (VNum (PyFloat r)) symbol
        = (case py_format
                  [''symbol'' \<mapsto> symbol_or_default self symbol,
                   ''amount'' \<mapsto> with_separators (thousands_separator (fm_locale self))
                                  (decimal_separator (fm_locale self)) (fmt_float \<bar>r\<bar> 2)]
                  (currency_format (fm_locale self)) of
             Inl e \<Rightarrow> Inl e
           | Inr formatted \<Rightarrow> Inr ((if r < 0 then ''-'' else []) @ formatted)))
   \<and> (\<not> sublist ''__THOUSANDS__'' (decimal_separator (fm_locale self))
        \<and> currency_format (fm_locale self) = ''{symbol}{amount}'' \<longrightarrow>
      format_currency rt self (VNum (PyFloat r)) symbol
        = Inr ((if r < 0 then ''-'' else []) @ symbol_or_default self symbol
                 @ with_separators (thousands_separator (fm_locale self))
                     (decimal_separator (fm_locale self)) (fmt_float \<bar>r\<bar> 2)))
   \<and> CHR ''-'' \<notin> set (fmt_float \<bar>r\<bar> 2)
   \<and> (\<exists>a fs. plain a \<and> list_all is_digit fs \<and> length fs = 2
         \<and> fmt_float \<bar>r\<bar> 2 = a @ ''.'' @ fs)
   \<and> format_currency rt self (VSpecial NegZero) symbol
        = format_currency rt self (VNum (PyFloat 0)) symbol
   \<and> (currency_format (fm_locale self) = ''{symbol}{amount}'' \<longrightarrow>
        format_currency rt self (VSpecial PosInf) symbol
          = Inr (symbol_or_default self symbol @ ''inf'')
        \<and> format_currency rt self (VSpecial NegInf) symbol
          = Inr (''-'' @ symbol_or_default self symbol @ ''inf'')
        \<and> format_currency rt self (VSpecial NaN) symbol
          = Inr (symbol_or_default self symbol @ ''nan''))
   \<and> format_currency rt euro_formatter
        (VNum (PyFloat (- (3462142213541069 / 281474976710656)))) None
        = Inr (''-'' @ euro @ ''12.30'')"
proof -
  have m: "\<not> (2::int) < 0 \<and> \<not> max_precision < 2" by (simp add: max_precision_def)
  have 1: "format_currency rt self (VNum (PyFloat r)) symbol
        = (case py_format
                  [''symbol'' \<mapsto> symbol_or_default self symbol,
                   ''amount'' \<mapsto> with_separators (thousands_separator (fm_locale self))
                                  (decimal_separator (fm_locale self)) (fmt_float \<bar>r\<bar> 2)]
                  (currency_format (fm_locale self)) of
             Inl e \<Rightarrow> Inl e
           | Inr formatted \<Rightarrow> Inr ((if r < 0 then ''-'' else []) @ formatted))"
    if "\<not> sublist ''__THOUSANDS__'' (decimal_separator (fm_locale self))"
    using that m locale_separators_fmt_float [of "fm_locale self" "\<bar>r\<bar>" 2]
    by (simp add: format_currency_def format_decimal_def format_number_def
        split: sum.splits)
  have 2: "format_currency rt self (VNum (PyFloat r)) symbol
        = Inr ((if r < 0 then ''-'' else []) @ symbol_or_default self symbol
                 @ with_separators (thousands_separator (fm_locale self))
                     (decimal_separator (fm_locale self)) (fmt_float \<bar>r\<bar> 2))"
    if "\<not> sublist ''__THOUSANDS__'' (decimal_separator (fm_locale self))"
      "currency_format (fm_locale self) = ''{symbol}{amount}''"
    using 1 [OF that(1)] that(2) by (simp add: py_format_symbol_amount)
  have 3: "CHR ''-'' \<notin> set (fmt_float \<bar>r\<bar> 2)" by (rule fmt_float_unsigned) simp
  have 4: "\<exists>a fs. plain a \<and> list_all is_digit fs \<and> length fs = 2
         \<and> fmt_float \<bar>r\<bar> 2 = a @ ''.'' @ fs"
    using fmt_float_shape [of 2 "\<bar>r\<bar>"] by simp
  have 5: "format_currency rt euro_formatter
        (VNum (PyFloat (- (3462142213541069 / 281474976710656)))) None
        = Inr (''-'' @ euro @ ''12.30'')"
    by code_simp
  have 6: "format_currency rt self (VSpecial NegZero) symbol
        = format_currency rt self (VNum (PyFloat 0)) symbol"
    by (simp add: format_currency_def split: sum.splits)
  have 7: "format_currency rt self (VSpecial PosInf) symbol
          = Inr (symbol_or_default self symbol @ ''inf'')
        \<and> format_currency rt self (VSpecial NegInf) symbol
          = Inr (''-'' @ symbol_or_default self symbol @ ''inf'')
        \<and> format_currency rt self (VSpecial NaN) symbol
          = Inr (symbol_or_default self symbol @ ''nan'')"
    if "currency_format (fm_locale self) = ''{symbol}{amount}''"
    using that m
    by (simp add: format_currency_def format_decimal_def format_number_def
        locale_separators_untouched py_format_symbol_amount)
  from 1 2 3 4 5 6 7 show ?thesis by blast
qed

theorem format_currency_sign_witness:
  "format_currency example_runtime es_formatter (VNum (PyFloat (- (3 / 2)))) (Some ''EUR '')
     = Inr ''-EUR 1,50''"
proof -
  have h: "\<not> sublist ''__THOUSANDS__'' (decimal_separator (fm_locale es_formatter))
      \<and> currency_format (fm_locale es_formatter) = ''{symbol}{amount}''"
    by code_simp
  have v: "(if - (3 / 2) < (0::rat) then ''-'' else []) @ symbol_or_default es_formatter (Some ''EUR '')
        @ with_separators (thousands_separator (fm_locale es_formatter))
            (decimal_separator (fm_locale es_formatter)) (fmt_float \<bar>- (3 / 2)\<bar> 2)
      = ''-EUR 1,50''"
    by code_simp
  from h format_currency_sign [where self = es_formatter and rt = example_runtime
      and r = "- (3 / 2)" and symbol = "Some ''EUR ''"]
  have "format_currency example_runtime es_formatter (VNum (PyFloat (- (3 / 2)))) (Some ''EUR '')
      = Inr ((if - (3 / 2) < (0::rat) then ''-'' else [])
               @ symbol_or_default es_formatter (Some ''EUR '')
               @ with_separators (thousands_separator (fm_locale es_formatter))
                   (decimal_separator (fm_locale es_formatter)) (fmt_float \<bar>- (3 / 2)\<bar> 2))"
    by blast
  then show ?thesis unfolding v .
qed

text \<open>
  The claim as written fails for an int: \<^verbatim>\<open>format_decimal\<close> passes the two places to
  \<^verbatim>\<open>format_number\<close>, which does not read them for an int, so \<^verbatim>\<open>format_currency(5)\<close> is the
  symbol and \<^verbatim>\<open>5\<close>.
\<close>

theorem format_currency_int_counterexample:
  "format_currency example_runtime euro_formatter (VNum (PyInt 5)) None = Inr (euro @ ''5'')"
  by code_simp

end
